theory Spec2Isabelle
  imports Main
begin

section \<open>JavaScript values used by the services\<close>

text \<open>
  Text values read from JSON or from a database column are \<open>string option\<close>:
  \<open>None\<close> stands for \<open>null\<close>/\<open>undefined\<close>.  JavaScript treats \<open>null\<close>,
  \<open>undefined\<close> and the empty string as falsy; \<open>a || b\<close> yields \<open>a\<close> when \<open>a\<close>
  is truthy and \<open>b\<close> otherwise.
\<close>

definition truthy :: "string option \<Rightarrow> bool" where
  "truthy v = (case v of None \<Rightarrow> False | Some s \<Rightarrow> s \<noteq> [])"

definition js_or :: "string option \<Rightarrow> string option \<Rightarrow> string option" where
  "js_or a b = (if truthy a then a else b)"

text \<open>Interpolation \<open>${v}\<close> inside a template literal.\<close>

definition interp :: "string option \<Rightarrow> string" where
  "interp v = (case v of None \<Rightarrow> ''undefined'' | Some s \<Rightarrow> s)"

section \<open>Edge functions: send-character-email and send-host-email\<close>

text \<open>
  A request carries its HTTP method and the outcome of destructuring
  \<open>await req.json()\<close>: \<open>Inl\<close> with the message of the error when parsing
  rejects or the parsed value cannot be destructured, otherwise the object's
  fields by key.
\<close>

record request =
  rq_method :: string
  rq_json :: "string + (string \<Rightarrow> string option)"

text \<open>
  The outcome of \<open>fetch\<close> towards the e-mail provider: the promise rejects with
  a message, or it resolves to a response with its \<open>ok\<close> flag, its status code,
  its text and, when \<open>response.json()\<close> rejects, the message of that error.
\<close>

datatype fetch_result =
    Rejected string
  | Resolved (fr_ok: bool) (fr_status: nat) (fr_text: string) (fr_json_error: "string option")

record email_request =
  em_to :: "string option"
  em_subject :: string
  em_link :: string

text \<open>
  The environment of a handler: the secret \<open>RESEND_API_KEY\<close>, the outcome of
  each \<open>fetch\<close>, and, for the two sends that \<open>Promise.all\<close> awaits, whether
  the second send rejects before the first when both reject.
\<close>

record email_env =
  resend_api_key :: "string option"
  fetch_emails :: "email_request \<Rightarrow> fetch_result"
  second_rejects_first :: bool

datatype response_body =
    Plain string
  | JsonSuccess string
  | JsonFailure string

record response =
  rs_status :: nat
  rs_body :: response_body

text \<open>
  \<open>new Response(body, init)\<close>: the Fetch API gives status 200 when \<open>init\<close> carries
  no \<open>status\<close>.
\<close>

definition Response :: "response_body \<Rightarrow> nat option \<Rightarrow> response" where
  "Response b st = \<lparr>rs_status = (case st of None \<Rightarrow> 200 | Some c \<Rightarrow> c), rs_body = b\<rparr>"

text \<open>Decimal rendering of a status code inside a template literal.\<close>

fun digits_rev :: "nat \<Rightarrow> nat \<Rightarrow> string" where
  "digits_rev 0 n = []"
| "digits_rev (Suc fuel) n =
     char_of (48 + n mod 10) # (if n < 10 then [] else digits_rev fuel (n div 10))"

definition show_nat :: "nat \<Rightarrow> string" where
  "show_nat n = rev (digits_rev (Suc n) n)"

text \<open>The mail that send-character-email posts to the provider.\<close>

definition character_mail :: "(string \<Rightarrow> string option) \<Rightarrow> email_request" where
  "character_mail body =
     \<lparr>em_to = body ''guest_email'',
      em_subject = ''Your Character: '' @ interp (body ''character_name'') @ '' for ''
                     @ interp (body ''mystery_title''),
      em_link = ''https://www.mysterymaker.party/character/'' @ interp (body ''access_token'')\<rparr>"

text \<open>
  The body of the \<open>try\<close> block of send-character-email; \<open>Inl\<close> is the message of
  the error thrown.
\<close>

definition character_email_try :: "email_env \<Rightarrow> request \<Rightarrow> string + response" where
  "character_email_try env req =
     (case rq_json req of
        Inl m \<Rightarrow> Inl m
      | Inr body \<Rightarrow>
          if \<not> truthy (resend_api_key env) then Inl ''RESEND_API_KEY not configured''
          else
            (case fetch_emails env (character_mail body) of
               Rejected m \<Rightarrow> Inl m
             | Resolved ok st txt json_error \<Rightarrow>
                 if \<not> ok then Inl (''Failed to send email: '' @ show_nat st)
                 else (case json_error of
                         Some m \<Rightarrow> Inl m
                       | None \<Rightarrow> Inr (Response (JsonSuccess ''Email sent successfully'') None))))"

definition send_character_email :: "email_env \<Rightarrow> request \<Rightarrow> response" where
  "send_character_email env req =
     (if rq_method req = ''OPTIONS'' then Response (Plain ''ok'') None
      else (case character_email_try env req of
              Inr r \<Rightarrow> r
            | Inl msg \<Rightarrow> Response (JsonFailure msg) (Some 200)))"

text \<open>The two mails that send-host-email posts to the provider.\<close>

definition host_guide_mail :: "(string \<Rightarrow> string option) \<Rightarrow> email_request" where
  "host_guide_mail body =
     \<lparr>em_to = body ''host_email'',
      em_subject = ''Host Guide: '' @ interp (body ''mystery_title''),
      em_link = ''https://murder-mystery.party/host/'' @ interp (body ''access_token'') @ ''#guide''\<rparr>"

definition host_detective_mail :: "(string \<Rightarrow> string option) \<Rightarrow> email_request" where
  "host_detective_mail body =
     \<lparr>em_to = body ''host_email'',
      em_subject = ''Detective Kit: '' @ interp (body ''mystery_title''),
      em_link = ''https://murder-mystery.party/host/'' @ interp (body ''access_token'') @ ''#detective''\<rparr>"

text \<open>
  \<open>sendEmail\<close> of send-host-email: one outbound call; the error text of a
  response that is not ok is part of the message.
\<close>

definition sendEmail :: "email_env \<Rightarrow> email_request \<Rightarrow> string + unit" where
  "sendEmail env mail =
     (case fetch_emails env mail of
        Rejected m \<Rightarrow> Inl m
      | Resolved ok st txt json_error \<Rightarrow>
          if \<not> ok then Inl (''Failed to send email: '' @ show_nat st @ '' - '' @ txt)
          else (case json_error of Some m \<Rightarrow> Inl m | None \<Rightarrow> Inr ()))"

text \<open>
  \<open>Promise.all\<close> over the two sends: both calls are made, and it rejects when one
  of them rejects, with the error of the send that rejects first.
\<close>

definition host_email_try :: "email_env \<Rightarrow> request \<Rightarrow> string + response" where
  "host_email_try env req =
     (case rq_json req of
        Inl m \<Rightarrow> Inl m
      | Inr body \<Rightarrow>
          if \<not> truthy (resend_api_key env) then Inl ''RESEND_API_KEY not configured''
          else
            (case (sendEmail env (host_guide_mail body), sendEmail env (host_detective_mail body)) of
               (Inl m1, Inl m2) \<Rightarrow> Inl (if second_rejects_first env then m2 else m1)
             | (Inl m1, Inr u) \<Rightarrow> Inl m1
             | (Inr u, Inl m2) \<Rightarrow> Inl m2
             | (Inr u, Inr u') \<Rightarrow> Inr (Response (JsonSuccess ''Host emails sent successfully'') None)))"

definition send_host_email :: "email_env \<Rightarrow> request \<Rightarrow> response" where
  "send_host_email env req =
     (if rq_method req = ''OPTIONS'' then Response (Plain ''ok'') None
      else (case host_email_try env req of
              Inr r \<Rightarrow> r
            | Inl msg \<Rightarrow> Response (JsonFailure msg) (Some 200)))"

text \<open>
  A send fails when \<open>fetch\<close> rejects, when the response is not ok, or when
  reading the response as JSON rejects.
\<close>

definition send_fails :: "fetch_result \<Rightarrow> bool" where
  "send_fails r =
     (case r of Rejected m \<Rightarrow> True | Resolved ok st txt json_error \<Rightarrow> \<not> ok \<or> json_error \<noteq> None)"

text \<open>The response body is \<open>{success: false, error: ...}\<close>.\<close>

definition signals_failure :: "response \<Rightarrow> bool" where
  "signals_failure r = (case rs_body r of JsonFailure m \<Rightarrow> True | _ \<Rightarrow> False)"

section \<open>The mystery package service: data\<close>

text \<open>
  The \<open>GenerationStatus\<close> object as it is stored in the \<open>generation_status\<close> JSON
  column and as the service returns it.  Every property may be missing
  (\<open>None\<close>); \<open>sections\<close> lists the section flags in the order of the object
  literal; \<open>error\<close> is the extra property the failure writes add.
\<close>

record GenerationStatus =
  status :: "string option"
  progress :: "int option"
  currentStep :: "string option"
  resumable :: "bool option"
  sections :: "(string \<times> bool) list option"
  error :: "string option"

text \<open>
  A value of the \<open>generation_status\<close> column: \<open>null\<close>, a primitive, or an
  object.
\<close>

datatype gen_json = JNull | JBool bool | JNum int | JStr string | JObj GenerationStatus

text \<open>JavaScript truthiness of such a value (\<open>!!v\<close>).\<close>

definition truthy_json :: "gen_json \<Rightarrow> bool" where
  "truthy_json v = (case v of JNull \<Rightarrow> False | JBool b \<Rightarrow> b | JNum n \<Rightarrow> n \<noteq> 0
                     | JStr t \<Rightarrow> t \<noteq> [] | JObj st \<Rightarrow> True)"

text \<open>\<open>v?.status\<close>: a primitive has no such property.\<close>

definition status_of :: "gen_json \<Rightarrow> string option" where
  "status_of v = (case v of JObj st \<Rightarrow> status st | _ \<Rightarrow> None)"

text \<open>
  Rows of the three tables.  Row ids are natural numbers, timestamps are readings
  of a clock (natural numbers), nullable text columns are \<open>string option\<close>.
\<close>

record mystery_package =
  pkg_id :: nat
  conversation_id :: string
  title :: "string option"
  game_overview :: "string option"
  host_guide :: "string option"
  materials :: "string option"
  preparation_instructions :: "string option"
  timeline :: "string option"
  hosting_tips :: "string option"
  evidence_cards :: "string option"
  relationship_matrix :: "string option"
  detective_script :: "string option"
  generation_status :: gen_json
  generation_started_at :: "nat option"
  generation_completed_at :: "nat option"
  created_at :: "nat option"
  updated_at :: nat

text \<open>
  A row of \<open>mystery_characters\<close>: the owning package and the text columns in the
  order of the object literal that \<open>saveStructuredPackageData\<close> inserts.
\<close>

record mystery_character =
  package_id :: nat
  columns :: "(string \<times> string option) list"
  character_created_at :: nat
  character_updated_at :: nat

record conversation =
  conv_id :: string
  needs_package_generation :: "bool option"
  has_complete_package :: "bool option"
  is_paid :: "bool option"
  display_status :: "string option"
  conv_status :: "string option"
  conv_updated_at :: "nat option"

record store =
  mystery_packages :: "mystery_package list"
  mystery_characters :: "mystery_character list"
  conversations :: "conversation list"

text \<open>
  What a call sends out besides reads: writes to a table (with the
  \<open>generation_status\<close> it carries, if any) and invocations of the edge function
  \<open>mystery-webhook-trigger\<close> with its payload \<open>{conversationId, testMode}\<close>.
\<close>

datatype event =
    Insert string "gen_json option"
  | Update string "gen_json option"
  | Delete string
  | Invoke string string bool

text \<open>The number of invocations of the edge function among the events of a run.\<close>

definition outbound_calls :: "event list \<Rightarrow> nat" where
  "outbound_calls evs = length (filter (\<lambda>e. case e of Invoke f c t \<Rightarrow> True | _ \<Rightarrow> False) evs)"

text \<open>
  The error object a store request or a function invocation may return, and the
  \<open>Error\<close> the service throws.
\<close>

record request_error =
  code :: string
  message :: string

datatype Error = Error string

text \<open>
  The environment of one call: the clock (\<open>new Date()\<close>), and for each request
  whose error the source inspects, named by the source's variable for that error
  (\<open>existingPackageErr\<close>, \<open>updateError\<close>, ...), the error returned, if any.  A
  request that returns an error leaves the store as it was.  A write whose result
  the source ignores is applied.
\<close>

record env =
  now :: nat
  errors :: "string \<Rightarrow> request_error option"

text \<open>
  \<open>.eq("conversation_id", id).order('updated_at', {ascending: false}).limit(1).maybeSingle()\<close>:
  the row of the conversation with the greatest \<open>updated_at\<close>; among equal
  timestamps the first in table order.
\<close>

fun newest :: "mystery_package list \<Rightarrow> mystery_package option" where
  "newest [] = None"
| "newest (r # rs) =
     (case newest rs of
        None \<Rightarrow> Some r
      | Some r' \<Rightarrow> if updated_at r < updated_at r' then Some r' else Some r)"

definition latest_package :: "store \<Rightarrow> string \<Rightarrow> mystery_package option" where
  "latest_package s cid = newest (filter (\<lambda>r. conversation_id r = cid) (mystery_packages s))"

text \<open>The character rows that a package owns.\<close>

definition characters_of :: "store \<Rightarrow> nat \<Rightarrow> mystery_character list" where
  "characters_of s pid = filter (\<lambda>c. package_id c = pid) (mystery_characters s)"

text \<open>
  The embedded resource \<open>characters:mystery_characters(count)\<close> of a package row
  read: the store answers an aggregate embed with an array of one object that
  holds the count, \<open>[{count: n}]\<close>, whatever \<open>n\<close> is.  The array is given here
  by the counts of its objects.
\<close>

definition characters_count_embed :: "store \<Rightarrow> nat \<Rightarrow> nat list" where
  "characters_count_embed s pid = [length (characters_of s pid)]"

definition find_conversation :: "store \<Rightarrow> string \<Rightarrow> conversation option" where
  "find_conversation s cid = find (\<lambda>c. conv_id c = cid) (conversations s)"

text \<open>\<open>.update(f).eq(...)\<close>: every row that matches is changed.\<close>

definition update_packages ::
  "(mystery_package \<Rightarrow> bool) \<Rightarrow> (mystery_package \<Rightarrow> mystery_package) \<Rightarrow> store \<Rightarrow> store" where
  "update_packages P f s = s\<lparr>mystery_packages := map (\<lambda>r. if P r then f r else r) (mystery_packages s)\<rparr>"

definition update_conversations ::
  "(conversation \<Rightarrow> bool) \<Rightarrow> (conversation \<Rightarrow> conversation) \<Rightarrow> store \<Rightarrow> store" where
  "update_conversations P f s = s\<lparr>conversations := map (\<lambda>r. if P r then f r else r) (conversations s)\<rparr>"

text \<open>The id the database gives an inserted package row: one not in use.\<close>

definition fresh_id :: "store \<Rightarrow> nat" where
  "fresh_id s = Suc (fold max (map pkg_id (mystery_packages s)) 0)"

section \<open>getPackageGenerationStatus\<close>

definition completedStatus :: GenerationStatus where
  "completedStatus =
     \<lparr>status = Some ''completed'', progress = Some 100,
      currentStep = Some ''Package generation completed'', resumable = None,
      sections = Some [(''hostGuide'', True), (''characters'', True), (''clues'', True),
                       (''inspectorScript'', True), (''characterMatrix'', True)],
      error = None\<rparr>"

definition defaultStatus :: GenerationStatus where
  "defaultStatus =
     \<lparr>status = Some ''not_started'', progress = Some 0, currentStep = Some ''Not started'',
      resumable = None, sections = Some [], error = None\<rparr>"

definition inProgressStatus :: GenerationStatus where
  "inProgressStatus =
     \<lparr>status = Some ''in_progress'', progress = Some 50,
      currentStep = Some ''Package generation in progress...'',
      resumable = None, sections = Some [], error = None\<rparr>"

definition errorStatus :: GenerationStatus where
  "errorStatus =
     \<lparr>status = Some ''not_started'', progress = Some 0, currentStep = Some ''Error checking status'',
      resumable = None, sections = Some [], error = None\<rparr>"

text \<open>
  \<open>normalizedStatus\<close>: \<open>status.status || 'not_started'\<close>, \<open>status.progress || 0\<close>,
  \<open>status.currentStep || 'Unknown step'\<close>, \<open>status.resumable\<close>,
  \<open>status.sections || {}\<close>.
\<close>

definition normalizedStatus :: "GenerationStatus \<Rightarrow> GenerationStatus" where
  "normalizedStatus st =
     \<lparr>status = js_or (status st) (Some ''not_started''),
      progress = Some (case progress st of None \<Rightarrow> 0 | Some p \<Rightarrow> p),
      currentStep = js_or (currentStep st) (Some ''Unknown step''),
      resumable = resumable st,
      sections = Some (case sections st of None \<Rightarrow> [] | Some m \<Rightarrow> m),
      error = None\<rparr>"

text \<open>
  Content-based completion detection on the row read: \<open>hasCharacters\<close> is
  \<open>data.characters.length > 0\<close>, taken of the embedded array.
\<close>

definition contentComplete :: "store \<Rightarrow> mystery_package \<Rightarrow> bool" where
  "contentComplete s data =
     (let hasContent = (truthy (title data) \<and> truthy (host_guide data));
          hasCharacters = (0 < length (characters_count_embed s (pkg_id data)))
      in hasContent \<and> hasCharacters)"

text \<open>
  The corrective write:
  \<open>.update({generation_status: completedStatus, generation_completed_at: now, updated_at: now})
   .eq("conversation_id", mysteryId)\<close>.
\<close>

definition write_completed :: "env \<Rightarrow> string \<Rightarrow> store \<Rightarrow> store" where
  "write_completed env mysteryId s =
     update_packages (\<lambda>r. conversation_id r = mysteryId)
       (\<lambda>r. r\<lparr>generation_status := JObj completedStatus,
               generation_completed_at := Some (now env),
               updated_at := now env\<rparr>) s"

text \<open>
  The body of the \<open>try\<close> block.  The result is the value returned or the error
  thrown, the store afterwards, and the writes sent.
\<close>

definition getPackageGenerationStatus_try ::
  "env \<Rightarrow> store \<Rightarrow> string \<Rightarrow> (Error + GenerationStatus) \<times> store \<times> event list" where
  "getPackageGenerationStatus_try env s mysteryId =
     (case errors env ''error'' of
        Some e \<Rightarrow> (Inl (Error (''Failed to fetch generation status: '' @ message e)), s, [])
      | None \<Rightarrow>
          (case latest_package s mysteryId of
             None \<Rightarrow> (Inr defaultStatus, s, [])
           | Some data \<Rightarrow>
               let complete = contentComplete s data;
                   stored = generation_status data;
                   correcting = (complete \<and> truthy_json stored \<and> status_of stored \<noteq> Some ''completed'');
                   corrected = (correcting \<and> errors env ''updateError'' = None);
                   s' = (if corrected then write_completed env mysteryId s else s);
                   evs = (if correcting then [Update ''mystery_packages'' (Some (JObj completedStatus))] else []);
                   currentStatus = (if corrected then JObj completedStatus else stored)
               in (case currentStatus of
                     JObj st \<Rightarrow> (Inr (normalizedStatus st), s', evs)
                   | _ \<Rightarrow>
                       if generation_completed_at data \<noteq> None \<or> complete then (Inr completedStatus, s', evs)
                       else if generation_started_at data \<noteq> None then (Inr inProgressStatus, s', evs)
                       else (Inr defaultStatus, s', evs))))"

text \<open>The \<open>catch\<close> block returns the fallback status for whatever was thrown.\<close>

definition getPackageGenerationStatus ::
  "env \<Rightarrow> store \<Rightarrow> string \<Rightarrow> (Error + GenerationStatus) \<times> store \<times> event list" where
  "getPackageGenerationStatus env s mysteryId =
     (case getPackageGenerationStatus_try env s mysteryId of
        (Inl e, s', evs) \<Rightarrow> (Inr errorStatus, s', evs)
      | (Inr st, s', evs) \<Rightarrow> (Inr st, s', evs))"

section \<open>generateCompletePackage\<close>

definition initialStatus :: GenerationStatus where
  "initialStatus =
     \<lparr>status = Some ''in_progress'', progress = Some 10,
      currentStep = Some ''Sending to external generation service...'', resumable = None,
      sections = Some [(''hostGuide'', False), (''characters'', False), (''clues'', False),
                       (''inspectorScript'', False), (''characterMatrix'', False), (''solution'', False)],
      error = None\<rparr>"

definition sentStatus :: GenerationStatus where
  "sentStatus =
     \<lparr>status = Some ''in_progress'', progress = Some 20,
      currentStep = Some ''Processing by external service...'', resumable = None,
      sections = None, error = None\<rparr>"

text \<open>
  \<open>{status: 'failed', progress: 0, currentStep: step, error: msg, resumable: true}\<close>
\<close>

definition failedStatus :: "string \<Rightarrow> string \<Rightarrow> GenerationStatus" where
  "failedStatus step msg =
     \<lparr>status = Some ''failed'', progress = Some 0, currentStep = Some step,
      resumable = Some True, sections = None, error = Some msg\<rparr>"

text \<open>\<open>.update({generation_status: st, updated_at: now}).eq("id", packageId)\<close>\<close>

definition write_status :: "env \<Rightarrow> nat \<Rightarrow> GenerationStatus \<Rightarrow> store \<Rightarrow> store" where
  "write_status env packageId st s =
     update_packages (\<lambda>r. pkg_id r = packageId)
       (\<lambda>r. r\<lparr>generation_status := JObj st, updated_at := now env\<rparr>) s"

text \<open>A package row that has only the columns given on insert.\<close>

definition new_package :: "nat \<Rightarrow> string \<Rightarrow> nat \<Rightarrow> mystery_package" where
  "new_package pid cid t =
     \<lparr>pkg_id = pid, conversation_id = cid, title = None, game_overview = None, host_guide = None,
      materials = None, preparation_instructions = None, timeline = None, hosting_tips = None,
      evidence_cards = None, relationship_matrix = None, detective_script = None,
      generation_status = JNull, generation_started_at = None, generation_completed_at = None,
      created_at = Some t, updated_at = t\<rparr>"

text \<open>
  "Create or update mystery_packages record with initial status": the package id,
  or the error thrown (no package id is known then), with the store afterwards
  and the writes sent.
\<close>

definition create_or_update_record ::
  "env \<Rightarrow> store \<Rightarrow> string \<Rightarrow> (Error + nat) \<times> store \<times> event list" where
  "create_or_update_record env s mysteryId =
     (let checkError = errors env ''checkError'';
          packageData = (if checkError = None then latest_package s mysteryId else None)
      in if (case checkError of None \<Rightarrow> False | Some e \<Rightarrow> code e \<noteq> ''PGRST116'')
         then (Inl (Error ''Failed to check existing package''), s, [])
         else
           (case packageData of
              Some row \<Rightarrow>
                (Inr (pkg_id row),
                 update_packages (\<lambda>r. pkg_id r = pkg_id row)
                   (\<lambda>r. r\<lparr>generation_status := JObj initialStatus,
                           generation_started_at := Some (now env),
                           updated_at := now env\<rparr>) s,
                 [Update ''mystery_packages'' (Some (JObj initialStatus))])
            | None \<Rightarrow>
                if errors env ''createError'' \<noteq> None
                then (Inl (Error ''Failed to create package record''), s,
                      [Insert ''mystery_packages'' (Some (JObj initialStatus))])
                else
                  (Inr (fresh_id s),
                   s\<lparr>mystery_packages := mystery_packages s @
                        [(new_package (fresh_id s) mysteryId (now env))
                           \<lparr>generation_status := JObj initialStatus,
                            generation_started_at := Some (now env)\<rparr>]\<rparr>,
                   [Insert ''mystery_packages'' (Some (JObj initialStatus))])))"

text \<open>
  The call of the edge function and the status write that follows it.  On
  \<open>webhookError\<close> the failed status is written and the error is thrown.
\<close>

definition call_webhook_trigger ::
  "env \<Rightarrow> store \<Rightarrow> string \<Rightarrow> bool \<Rightarrow> nat \<Rightarrow> (Error + string) \<times> store \<times> event list" where
  "call_webhook_trigger env s mysteryId testMode packageId =
     (case errors env ''webhookError'' of
        Some e \<Rightarrow>
          (Inl (Error (''Failed to trigger generation: '' @ message e)),
           write_status env packageId (failedStatus ''Failed to trigger generation'' (message e)) s,
           [Invoke ''mystery-webhook-trigger'' mysteryId testMode,
            Update ''mystery_packages''
              (Some (JObj (failedStatus ''Failed to trigger generation'' (message e))))])
      | None \<Rightarrow>
          (Inr ''Package generation started successfully'',
           write_status env packageId sentStatus s,
           [Invoke ''mystery-webhook-trigger'' mysteryId testMode,
            Update ''mystery_packages'' (Some (JObj sentStatus))]))"

text \<open>
  The body of the \<open>try\<close> block.  Besides the result it gives the value of the
  variable \<open>packageId\<close> at the point of return or throw, which the \<open>catch\<close>
  block reads.  The texts \<open>conversationContent\<close> and \<open>formattedMessages\<close> built
  from the conversation's messages are not used afterwards and are left out.
\<close>

definition generateCompletePackage_try ::
  "env \<Rightarrow> store \<Rightarrow> string \<Rightarrow> bool \<Rightarrow> (Error + string) \<times> nat option \<times> store \<times> event list" where
  "generateCompletePackage_try env s mysteryId testMode =
     (let existingPackageErr = errors env ''existingPackageErr'';
          existingPackage = (if existingPackageErr = None then latest_package s mysteryId else None);
          existingStatus = (case existingPackage of None \<Rightarrow> None
                            | Some row \<Rightarrow> status_of (generation_status row))
      in if existingPackageErr = None \<and> existingStatus = Some ''completed''
           then (Inr ''already_completed'', None, s, [])
         else if existingPackageErr = None \<and> existingStatus = Some ''in_progress''
           then (Inr ''already_in_progress'', None, s, [])
         else
           (case (if errors env ''conversationError'' = None then find_conversation s mysteryId else None) of
              None \<Rightarrow> (Inl (Error ''Failed to fetch conversation data''), None, s, [])
            | Some conversation \<Rightarrow>
                (case create_or_update_record env s mysteryId of
                   (Inl e, s1, evs1) \<Rightarrow> (Inl e, None, s1, evs1)
                 | (Inr packageId, s1, evs1) \<Rightarrow>
                     (case call_webhook_trigger env s1 mysteryId testMode packageId of
                        (r, s2, evs2) \<Rightarrow> (r, Some packageId, s2, evs1 @ evs2)))))"

text \<open>
  The \<open>catch\<close> block: with a package id known it writes the failed status, then
  it throws \<open>Package generation failed: ...\<close>.
\<close>

definition generateCompletePackage ::
  "env \<Rightarrow> store \<Rightarrow> string \<Rightarrow> bool \<Rightarrow> (Error + string) \<times> store \<times> event list" where
  "generateCompletePackage env s mysteryId testMode =
     (case generateCompletePackage_try env s mysteryId testMode of
        (Inr v, packageId, s', evs) \<Rightarrow> (Inr v, s', evs)
      | (Inl (Error m), None, s', evs) \<Rightarrow>
          (Inl (Error (''Package generation failed: '' @ m)), s', evs)
      | (Inl (Error m), Some pid, s', evs) \<Rightarrow>
          (Inl (Error (''Package generation failed: '' @ m)),
           write_status env pid (failedStatus ''Unexpected error during generation'' m) s',
           evs @ [Update ''mystery_packages''
                    (Some (JObj (failedStatus ''Unexpected error during generation'' m)))]))"

definition resumePackageGeneration ::
  "env \<Rightarrow> store \<Rightarrow> string \<Rightarrow> (Error + string) \<times> store \<times> event list" where
  "resumePackageGeneration env s mysteryId = generateCompletePackage env s mysteryId False"

section \<open>saveStructuredPackageData\<close>













section \<open>buildCharacterGuideContent\<close>

text \<open>
  Modelled from the spec: the interface \<open>MysteryCharacter\<close>, which the view
  imports from \<open>interfaces/mystery\<close>.  A character has a name and optional
  text fields, which the guide concatenates in a fixed order; the fields here are
  those the function reads.  \<open>relationships\<close> is an array of objects, as the
  view builds and reads it elsewhere.
\<close>

record relationship =
  rel_character :: string
  rel_description :: string








section \<open>checkGenerationStatus\<close>

text \<open>
  The state of the view that the callback reads and sets: the status shown, the
  \<open>generating\<close> flag, and the two refs \<open>lastStatusCheck\<close> and
  \<open>packageReadyNotified\<close>.
\<close>

record view =
  generationStatus :: "GenerationStatus option"
  generating :: bool
  lastStatusCheck :: nat
  packageReadyNotified :: bool

text \<open>What the callback shows to the user.\<close>

datatype notice = ToastSuccess | ToastFailedResumable | ToastFailedRetry | PageReload

text \<open>STEP 4: the status forced when a completion indicator is found.\<close>

definition forcedStatus :: GenerationStatus where
  "forcedStatus =
     \<lparr>status = Some ''completed'', progress = Some 100,
      currentStep = Some ''Package generation completed'', resumable = Some False,
      sections = Some [(''hostGuide'', True), (''characters'', True), (''clues'', True)],
      error = None\<rparr>"

text \<open>STEP 3: the three completion indicators.\<close>

definition hasActualContent :: "mystery_package option \<Rightarrow> bool" where
  "hasActualContent packageData =
     (case packageData of
        None \<Rightarrow> False
      | Some p \<Rightarrow> truthy (title p) \<or> truthy (host_guide p) \<or> generation_completed_at p \<noteq> None)"

definition conversationIndicatesComplete :: "conversation option \<Rightarrow> bool" where
  "conversationIndicatesComplete conversationData =
     (case conversationData of
        None \<Rightarrow> False
      | Some c \<Rightarrow> has_complete_package c = Some True \<or> is_paid c = Some True)"

definition packageStatusComplete :: "mystery_package option \<Rightarrow> bool" where
  "packageStatusComplete packageData =
     (case packageData of
        None \<Rightarrow> False
      | Some p \<Rightarrow> status_of (generation_status p) = Some ''completed'')"

text \<open>
  The callback, for a mystery id that is not empty.  \<open>t\<close> is \<open>Date.now()\<close> in
  milliseconds.  The result is the status returned (\<open>None\<close> for \<open>null\<close>), the view
  and the store afterwards, the writes sent and the notices shown.  The reads of
  \<open>fetchStructuredPackageData\<close>, which only fill the content shown, are left
  out.
\<close>

definition checkGenerationStatus ::
  "env \<Rightarrow> nat \<Rightarrow> view \<Rightarrow> store \<Rightarrow> string \<Rightarrow>
     GenerationStatus option \<times> view \<times> store \<times> event list \<times> notice list" where
  "checkGenerationStatus env t v s mysteryId =
     (if int t - int (lastStatusCheck v) < 10000 then (generationStatus v, v, s, [], [])
      else
        let v0 = v\<lparr>lastStatusCheck := t\<rparr>;
            packageData = (if errors env ''packageError'' = None then latest_package s mysteryId else None);
            conversationData = (if errors env ''conversationError'' = None
                                then find_conversation s mysteryId else None);
            previousStatus = (case generationStatus v of None \<Rightarrow> None | Some g \<Rightarrow> status g)
        in
        if hasActualContent packageData \<or> conversationIndicatesComplete conversationData
             \<or> packageStatusComplete packageData
        then
          let s1 = (case packageData of
                      None \<Rightarrow> s
                    | Some p \<Rightarrow>
                        update_packages (\<lambda>r. pkg_id r = pkg_id p)
                          (\<lambda>r. r\<lparr>generation_status := JObj forcedStatus\<rparr>) s);
              evs1 = (case packageData of
                        None \<Rightarrow> []
                      | Some p \<Rightarrow> [Update ''mystery_packages'' (Some (JObj forcedStatus))]);
              v1 = v0\<lparr>generationStatus := Some forcedStatus\<rparr>
          in
          if previousStatus \<noteq> Some ''completed'' then
            (Some forcedStatus,
             v1\<lparr>generating := False, packageReadyNotified := True\<rparr>,
             update_conversations (\<lambda>c. conv_id c = mysteryId)
               (\<lambda>c. c\<lparr>conv_status := Some ''purchased'',
                       is_paid := Some True,
                       needs_package_generation := Some False,
                       display_status := Some ''purchased'',
                       has_complete_package := Some True\<rparr>) s1,
             evs1 @ [Update ''conversations'' None],
             (if \<not> packageReadyNotified v then [ToastSuccess, PageReload] else []))
          else (Some forcedStatus, v1, s1, evs1, [])
        else
          (case getPackageGenerationStatus env s mysteryId of
             (Inl e, s1, evs1) \<Rightarrow> (None, v0, s1, evs1, [])
           | (Inr st, s1, evs1) \<Rightarrow>
               if status st = Some ''failed'' \<and> previousStatus \<noteq> Some ''failed''
               then (Some st, v0\<lparr>generationStatus := Some st, generating := False\<rparr>, s1, evs1,
                     [if resumable st = Some True then ToastFailedResumable else ToastFailedRetry])
               else (Some st, v0\<lparr>generationStatus := Some st\<rparr>, s1, evs1, [])))"

section \<open>Concrete environments and stores\<close>

text \<open>An environment in which no request returns an error, read at clock \<open>t\<close>.\<close>

definition no_errors :: "nat \<Rightarrow> env" where
  "no_errors t = \<lparr>now = t, errors = (\<lambda>site. None)\<rparr>"

text \<open>An environment in which exactly the request named \<open>site\<close> returns an error.\<close>

definition failing :: "string \<Rightarrow> nat \<Rightarrow> env" where
  "failing site t =
     \<lparr>now = t,
      errors = (\<lambda>k. if k = site then Some \<lparr>code = ''503'', message = ''unavailable''\<rparr> else None)\<rparr>"

text \<open>
  A store with one conversation \<open>c1\<close>, one package row of it (id 1) with the given
  title, host guide and stored status, and one character row of that package.
\<close>

definition example_row :: "string option \<Rightarrow> string option \<Rightarrow> gen_json \<Rightarrow> mystery_package" where
  "example_row t h g =
     (new_package 1 ''c1'' 5)\<lparr>title := t, host_guide := h, generation_status := g,
                               generation_started_at := Some 5\<rparr>"

definition example_character :: mystery_character where
  "example_character =
     \<lparr>package_id = 1, columns = [(''character_name'', Some ''Ada'')],
      character_created_at = 5, character_updated_at = 5\<rparr>"

definition example_conversation :: conversation where
  "example_conversation =
     \<lparr>conv_id = ''c1'', needs_package_generation = Some True, has_complete_package = Some False,
      is_paid = Some False, display_status = None, conv_status = None, conv_updated_at = Some 5\<rparr>"

definition example_store :: "mystery_package \<Rightarrow> store" where
  "example_store r =
     \<lparr>mystery_packages = [r], mystery_characters = [example_character],
      conversations = [example_conversation]\<rparr>"

text \<open>A status object whose \<open>status\<close> is none of the four values of the enum.\<close>

definition queuedStatus :: GenerationStatus where
  "queuedStatus =
     \<lparr>status = Some ''queued'', progress = None, currentStep = None, resumable = None,
      sections = None, error = None\<rparr>"

definition initial_view :: view where
  "initial_view =
     \<lparr>generationStatus = None, generating = True, lastStatusCheck = 0, packageReadyNotified = False\<rparr>"



text \<open>
  A request to the host handler, and an environment in which the provider accepts
  the host guide mail and answers the detective kit mail with status 500.
\<close>

definition example_request :: request where
  "example_request =
     \<lparr>rq_method = ''POST'',
      rq_json = Inr (\<lambda>k. if k = ''mystery_title'' then Some ''M''
                         else if k = ''host_email'' then Some ''h@x'' else None)\<rparr>"

definition example_email_env :: email_env where
  "example_email_env =
     \<lparr>resend_api_key = Some ''key'',
      fetch_emails = (\<lambda>mail. if em_subject mail = ''Detective Kit: M''
                             then Resolved False 500 ''error'' None
                             else Resolved True 200 ''sent'' None),
      second_rejects_first = False\<rparr>"

text \<open>The example store with the conversation marked as paid.\<close>

definition paid_store :: "mystery_package \<Rightarrow> store" where
  "paid_store r = (example_store r)\<lparr>conversations := [example_conversation\<lparr>is_paid := Some True\<rparr>]\<rparr>"

section \<open>Properties of the edge functions\<close>

lemma character_status: "rs_status (send_character_email env req) = 200"
  by (simp add: send_character_email_def character_email_try_def Response_def
      split: sum.splits option.splits fetch_result.splits if_splits)

lemma host_status: "rs_status (send_host_email env req) = 200"
  by (simp add: send_host_email_def host_email_try_def Response_def
      split: sum.splits option.splits if_splits prod.splits)

lemma sendEmail_isl: "send_fails (fetch_emails env mail) = isl (sendEmail env mail)"
  by (cases "fetch_emails env mail") (simp_all add: sendEmail_def send_fails_def split: option.splits)

lemma character_signals:
  assumes "rq_method req \<noteq> ''OPTIONS''"
  shows "signals_failure (send_character_email env req) =
           (case rq_json req of
              Inl m \<Rightarrow> True
            | Inr body \<Rightarrow> \<not> truthy (resend_api_key env)
                           \<or> send_fails (fetch_emails env (character_mail body)))"
  using assms
  by (auto simp add: send_character_email_def character_email_try_def signals_failure_def
      send_fails_def Response_def split: sum.splits fetch_result.splits option.splits)

lemma character_success:
  assumes "rq_method req \<noteq> ''OPTIONS''"
    and "\<not> signals_failure (send_character_email env req)"
  shows "rs_body (send_character_email env req) = JsonSuccess ''Email sent successfully''"
  using assms
  by (auto simp add: send_character_email_def character_email_try_def signals_failure_def
      Response_def split: sum.splits fetch_result.splits option.splits if_splits)

lemma host_signals:
  assumes "rq_method req \<noteq> ''OPTIONS''"
  shows "signals_failure (send_host_email env req) =
           (case rq_json req of
              Inl m \<Rightarrow> True
            | Inr body \<Rightarrow> \<not> truthy (resend_api_key env)
                           \<or> send_fails (fetch_emails env (host_guide_mail body))
                           \<or> send_fails (fetch_emails env (host_detective_mail body)))"
proof (cases "rq_json req")
  case (Inl m)
  with assms show ?thesis
    by (simp add: send_host_email_def host_email_try_def signals_failure_def Response_def)
next
  case (Inr body)
  with assms show ?thesis
    by (cases "sendEmail env (host_guide_mail body)"; cases "sendEmail env (host_detective_mail body)")
       (simp_all add: send_host_email_def host_email_try_def signals_failure_def Response_def
          sendEmail_isl)
qed

lemma host_success:
  assumes "rq_method req \<noteq> ''OPTIONS''"
    and "\<not> signals_failure (send_host_email env req)"
  shows "rs_body (send_host_email env req) = JsonSuccess ''Host emails sent successfully''"
  using assms
  by (auto simp add: send_host_email_def host_email_try_def signals_failure_def
      Response_def split: sum.splits if_splits prod.splits)

text \<open>
  C10.  Whatever the request and whatever the environment, both edge functions
  answer with HTTP status 200.  For a request that is not \<open>OPTIONS\<close>, the body
  says \<open>success: false\<close> exactly when the send fails: the request body is
  malformed, the API key is missing, or a send to the provider fails, for the host
  either of its two sends; otherwise the body says \<open>success: true\<close>.  So a failed
  send and a successful one differ only in the body.
\<close>

theorem email_functions_always_200:
  "rs_status (send_character_email env req) = 200 \<and>
   rs_status (send_host_email env req) = 200 \<and>
   (rq_method req \<noteq> ''OPTIONS'' \<longrightarrow>
      signals_failure (send_character_email env req) =
        (case rq_json req of
           Inl m \<Rightarrow> True
         | Inr body \<Rightarrow> \<not> truthy (resend_api_key env)
                        \<or> send_fails (fetch_emails env (character_mail body))) \<and>
      signals_failure (send_host_email env req) =
        (case rq_json req of
           Inl m \<Rightarrow> True
         | Inr body \<Rightarrow> \<not> truthy (resend_api_key env)
                        \<or> send_fails (fetch_emails env (host_guide_mail body))
                        \<or> send_fails (fetch_emails env (host_detective_mail body))) \<and>
      (\<not> signals_failure (send_character_email env req) \<longrightarrow>
         rs_body (send_character_email env req) = JsonSuccess ''Email sent successfully'') \<and>
      (\<not> signals_failure (send_host_email env req) \<longrightarrow>
         rs_body (send_host_email env req) = JsonSuccess ''Host emails sent successfully''))"
  using character_status [of env req] host_status [of env req]
    character_signals [of req env] host_signals [of req env]
    character_success [of req env] host_success [of req env]
  by blast

theorem email_functions_always_200_witness:
  "rs_status (send_character_email example_email_env example_request) = 200 \<and>
   rs_status (send_host_email example_email_env example_request) = 200 \<and>
   signals_failure (send_host_email example_email_env example_request) \<and>
   rs_body (send_character_email example_email_env example_request)
     = JsonSuccess ''Email sent successfully''"
proof -
  have m: "rq_method example_request \<noteq> ''OPTIONS''" by (simp add: example_request_def)
  have h: "(case rq_json example_request of
           Inl m \<Rightarrow> True
         | Inr body \<Rightarrow> \<not> truthy (resend_api_key example_email_env)
                        \<or> send_fails (fetch_emails example_email_env (host_guide_mail body))
                        \<or> send_fails (fetch_emails example_email_env (host_detective_mail body)))"
    by (simp add: example_request_def example_email_env_def host_detective_mail_def
        send_fails_def interp_def)
  have c: "\<not> (case rq_json example_request of
           Inl m \<Rightarrow> True
         | Inr body \<Rightarrow> \<not> truthy (resend_api_key example_email_env)
                        \<or> send_fails (fetch_emails example_email_env (character_mail body)))"
    by (simp add: example_request_def example_email_env_def character_mail_def
        send_fails_def interp_def truthy_def)
  from email_functions_always_200 [of example_email_env example_request] m h c
  show ?thesis by simp
qed

section \<open>Properties of buildCharacterGuideContent\<close>




section \<open>Properties of the mystery package service\<close>

subsection \<open>Reading the latest package row\<close>

lemma newest_in_set: "newest rs = Some r \<Longrightarrow> r \<in> set rs"
  by (induction rs arbitrary: r) (auto split: option.splits if_splits)

lemma newest_None_iff: "newest rs = None \<longleftrightarrow> rs = []"
  by (cases rs) (auto split: option.splits)

lemma newest_max: "newest rs = Some r \<Longrightarrow> x \<in> set rs \<Longrightarrow> updated_at x \<le> updated_at r"
proof (induction rs arbitrary: r)
  case Nil
  then show ?case by simp
next
  case (Cons a rs)
  show ?case
  proof (cases "newest rs")
    case None
    then have "rs = []" by (simp add: newest_None_iff)
    with Cons.prems None show ?thesis by simp
  next
    case (Some r')
    from Cons.IH [OF Some] have ih: "x \<in> set rs \<Longrightarrow> updated_at x \<le> updated_at r'" .
    from Cons.prems Some show ?thesis
      by (auto split: if_splits dest: ih)
  qed
qed

lemma latest_package_in_store:
  "latest_package s cid = Some r \<Longrightarrow> r \<in> set (mystery_packages s) \<and> conversation_id r = cid"
  using newest_in_set [of "filter (\<lambda>r. conversation_id r = cid) (mystery_packages s)" r]
  by (simp add: latest_package_def)

lemma filter_map_update:
  assumes "\<And>r. P (f r) = P r"
  shows "filter P (map (\<lambda>r. if P r then f r else r) rs) = map f (filter P rs)"
  using assms by (induction rs) auto

lemma latest_with_newest_timestamp:
  assumes rows: "\<forall>r \<in> set (mystery_packages s). conversation_id r = cid \<longrightarrow>
                   (generation_status r = g \<and> updated_at r = t) \<or> updated_at r < t"
    and one: "\<exists>r \<in> set (mystery_packages s). conversation_id r = cid \<and> generation_status r = g
                 \<and> updated_at r = t"
  shows "\<exists>r. latest_package s cid = Some r \<and> generation_status r = g"
proof -
  let ?rs = "filter (\<lambda>r. conversation_id r = cid) (mystery_packages s)"
  from one obtain x where x: "x \<in> set ?rs" "updated_at x = t" by auto
  then have "?rs \<noteq> []" by (auto simp: filter_empty_conv)
  then obtain r where r: "newest ?rs = Some r"
    using newest_None_iff by (metis option.exhaust)
  then have mem: "r \<in> set ?rs" by (rule newest_in_set)
  from newest_max [OF r x(1)] x(2) have "t \<le> updated_at r" by simp
  moreover from mem rows have "(generation_status r = g \<and> updated_at r = t) \<or> updated_at r < t"
    by auto
  ultimately have "generation_status r = g" by auto
  with r show ?thesis by (simp add: latest_package_def)
qed

lemmas example_defs = no_errors_def failing_def example_row_def example_character_def
  example_conversation_def example_store_def new_package_def

subsection \<open>getPackageGenerationStatus and checkGenerationStatus\<close>

lemmas reconcile_defs = getPackageGenerationStatus_def getPackageGenerationStatus_try_def
  latest_package_def contentComplete_def characters_count_embed_def characters_of_def truthy_def
  truthy_json_def status_of_def
  normalizedStatus_def js_or_def write_completed_def update_packages_def Let_def

lemma normalizedStatus_completedStatus: "normalizedStatus completedStatus = completedStatus"
  by (simp add: normalizedStatus_def completedStatus_def js_or_def truthy_def)

lemma normalizedStatus_status_completed:
  "status st = Some ''completed'' \<Longrightarrow> status (normalizedStatus st) = Some ''completed''"
  by (simp add: normalizedStatus_def js_or_def truthy_def)

lemma status_of_completedE:
  assumes "status_of g = Some ''completed''"
  obtains st where "g = JObj st" and "status st = Some ''completed''"
  using assms by (cases g) (simp_all add: status_of_def)

lemma latest_after_write_completed:
  assumes "latest_package s cid = Some r"
  shows "\<exists>r'. latest_package (write_completed env cid s) cid = Some r'
               \<and> generation_status r' = JObj completedStatus"
proof -
  let ?P = "\<lambda>r. conversation_id r = cid"
  let ?f = "\<lambda>r. r\<lparr>generation_status := JObj completedStatus,
               generation_completed_at := Some (now env), updated_at := now env\<rparr>"
  have flt: "filter ?P (mystery_packages (write_completed env cid s)) = map ?f (filter ?P (mystery_packages s))"
    unfolding write_completed_def update_packages_def
    by (simp add: filter_map_update [where P = ?P and f = ?f])
  from assms have "filter ?P (mystery_packages s) \<noteq> []"
    by (auto simp: latest_package_def newest_None_iff [symmetric])
  then have "map ?f (filter ?P (mystery_packages s)) \<noteq> []" by simp
  then obtain r' where r': "newest (map ?f (filter ?P (mystery_packages s))) = Some r'"
    using newest_None_iff by (metis option.exhaust)
  then have "r' \<in> set (map ?f (filter ?P (mystery_packages s)))" by (rule newest_in_set)
  then have "generation_status r' = JObj completedStatus" by auto
  with r' flt show ?thesis by (simp add: latest_package_def)
qed

lemma write_completed_rows:
  assumes "r \<in> set (mystery_packages (write_completed env mysteryId s))"
    and "conversation_id r = mysteryId"
  shows "generation_status r = JObj completedStatus"
proof -
  let ?f = "\<lambda>r. r\<lparr>generation_status := JObj completedStatus,
               generation_completed_at := Some (now env), updated_at := now env\<rparr>"
  from assms(1) obtain x where x: "x \<in> set (mystery_packages s)"
    and r: "r = (if conversation_id x = mysteryId then ?f x else x)"
    unfolding write_completed_def update_packages_def by auto
  show ?thesis
  proof (cases "conversation_id x = mysteryId")
    case True
    with r show ?thesis by simp
  next
    case False
    with r assms(2) show ?thesis by simp
  qed
qed

lemma reconcile_stored_completed:
  assumes "errors env ''error'' = None"
    and "latest_package s mysteryId = Some row"
    and "generation_status row = JObj st"
    and "status st = Some ''completed''"
  shows "getPackageGenerationStatus env s mysteryId = (Inr (normalizedStatus st), s, [])"
  using assms
  by (simp add: getPackageGenerationStatus_def getPackageGenerationStatus_try_def Let_def status_of_def)

lemma reconcile_corrects:
  assumes "errors env ''error'' = None"
    and "errors env ''updateError'' = None"
    and "latest_package s mysteryId = Some row"
    and "contentComplete s row"
    and "generation_status row = JObj st"
    and "status st \<noteq> Some ''completed''"
  shows "getPackageGenerationStatus env s mysteryId =
           (Inr completedStatus, write_completed env mysteryId s,
            [Update ''mystery_packages'' (Some (JObj completedStatus))])"
  using assms
  by (simp add: getPackageGenerationStatus_def getPackageGenerationStatus_try_def Let_def
      status_of_def truthy_json_def normalizedStatus_completedStatus)

lemma reconcile_store_cases:
  "fst (snd (getPackageGenerationStatus env s mysteryId)) = s \<or>
   fst (snd (getPackageGenerationStatus env s mysteryId)) = write_completed env mysteryId s"
  by (simp add: getPackageGenerationStatus_def getPackageGenerationStatus_try_def Let_def
      split: option.splits gen_json.splits)

lemma ratchet_same:
  "list_all2 (\<lambda>r r'. status_of (generation_status r) = Some ''completed''
                   \<longrightarrow> status_of (generation_status r') = Some ''completed'') rs rs"
  by (simp add: list_all2_same)

lemma ratchet_write_completed:
  "list_all2 (\<lambda>r r'. status_of (generation_status r) = Some ''completed''
                   \<longrightarrow> status_of (generation_status r') = Some ''completed'')
      (mystery_packages s) (mystery_packages (write_completed env mysteryId s))"
  by (simp add: write_completed_def update_packages_def list_all2_map2 list_all2_same
      status_of_def completedStatus_def)

lemma contentComplete_iff:
  "contentComplete s row \<longleftrightarrow> truthy (title row) \<and> truthy (host_guide row)"
  by (simp add: contentComplete_def characters_count_embed_def)

lemma reconcile_not_object:
  assumes "errors env ''error'' = None"
    and "latest_package s mysteryId = Some row"
    and "\<forall>st. generation_status row \<noteq> JObj st"
  shows "fst (getPackageGenerationStatus env s mysteryId) =
           Inr (if generation_completed_at row \<noteq> None \<or> contentComplete s row then completedStatus
                else if generation_started_at row \<noteq> None then inProgressStatus
                else defaultStatus)"
  using assms
  by (cases "generation_status row")
     (simp_all add: getPackageGenerationStatus_def getPackageGenerationStatus_try_def Let_def
        normalizedStatus_completedStatus)

lemma reconcile_object_incomplete:
  assumes "errors env ''error'' = None"
    and "latest_package s mysteryId = Some row"
    and "generation_status row = JObj st"
    and "\<not> (truthy (title row) \<and> truthy (host_guide row))"
  shows "getPackageGenerationStatus env s mysteryId = (Inr (normalizedStatus st), s, [])"
proof -
  from assms(4) have "\<not> contentComplete s row" by (simp add: contentComplete_iff)
  with assms(1-3) show ?thesis
    by (simp add: getPackageGenerationStatus_def getPackageGenerationStatus_try_def Let_def)
qed

lemma reconcile_not_object_complete:
  assumes "errors env ''error'' = None"
    and "latest_package s mysteryId = Some row"
    and "\<forall>st. generation_status row \<noteq> JObj st"
    and "generation_completed_at row \<noteq> None
           \<or> (truthy (title row) \<and> truthy (host_guide row)
                \<and> 0 < length (characters_of s (pkg_id row)))"
  shows "fst (getPackageGenerationStatus env s mysteryId) = Inr completedStatus"
proof -
  from assms(4) have "generation_completed_at row \<noteq> None \<or> contentComplete s row"
    by (auto simp: contentComplete_iff)
  with reconcile_not_object [OF assms(1-3)] show ?thesis by simp
qed

lemma reconcile_not_object_incomplete:
  assumes "errors env ''error'' = None"
    and "latest_package s mysteryId = Some row"
    and "\<forall>st. generation_status row \<noteq> JObj st"
    and "generation_completed_at row = None"
    and "\<not> (truthy (title row) \<and> truthy (host_guide row))"
  shows "fst (getPackageGenerationStatus env s mysteryId) =
           Inr (if generation_started_at row \<noteq> None then inProgressStatus else defaultStatus)"
proof -
  from assms(4,5) have "\<not> (generation_completed_at row \<noteq> None \<or> contentComplete s row)"
    by (simp add: contentComplete_iff)
  with reconcile_not_object [OF assms(1-3)] show ?thesis by simp
qed

lemma normalizedStatus_status:
  "status (normalizedStatus st) = (if truthy (status st) then status st else Some ''not_started'')"
  by (simp add: normalizedStatus_def js_or_def)

lemma check_forced_by_flags:
  assumes "10000 \<le> int t - int (lastStatusCheck v)"
    and "errors env ''conversationError'' = None"
    and "find_conversation s mysteryId = Some c"
    and "has_complete_package c = Some True \<or> is_paid c = Some True"
  shows "fst (checkGenerationStatus env t v s mysteryId) = Some forcedStatus"
proof -
  from assms(2,3,4) have "conversationIndicatesComplete
     (if errors env ''conversationError'' = None then find_conversation s mysteryId else None)"
    by (simp add: conversationIndicatesComplete_def)
  with assms(1) show ?thesis
    by (simp add: checkGenerationStatus_def Let_def)
qed

text \<open>
  C1, as amended.  Let the read and the corrective write succeed.  For a latest
  row whose content is complete (title and host guide present, at least one
  character row) and whose stored status is \<open>not_started\<close>, \<open>in_progress\<close> or
  \<open>failed\<close>, the call returns \<open>completed\<close> with progress 100, the step
  \<open>Package generation completed\<close> and all five section flags true, and sends one
  write that stores this status in every package row of the conversation.  A
  second call on the resulting store, whose read succeeds, returns the same
  status, sends no write and leaves the store as it is.
\<close>

theorem self_healing:
  assumes read_ok: "errors env ''error'' = None"
    and write_ok: "errors env ''updateError'' = None"
    and read_ok': "errors env' ''error'' = None"
    and latest: "latest_package s mysteryId = Some row"
    and complete: "contentComplete s row"
    and chars: "0 < length (characters_of s (pkg_id row))"
    and stored: "generation_status row = JObj st"
    and recognized: "status st = Some ''not_started'' \<or> status st = Some ''in_progress''
                       \<or> status st = Some ''failed''"
  shows "getPackageGenerationStatus env s mysteryId =
           (Inr \<lparr>status = Some ''completed'', progress = Some 100,
                 currentStep = Some ''Package generation completed'', resumable = None,
                 sections = Some [(''hostGuide'', True), (''characters'', True), (''clues'', True),
                                  (''inspectorScript'', True), (''characterMatrix'', True)],
                 error = None\<rparr>,
            write_completed env mysteryId s,
            [Update ''mystery_packages'' (Some (JObj completedStatus))])
       \<and> (\<forall>r \<in> set (mystery_packages (write_completed env mysteryId s)).
             conversation_id r = mysteryId \<longrightarrow> generation_status r = JObj completedStatus)
       \<and> getPackageGenerationStatus env' (write_completed env mysteryId s) mysteryId =
           (Inr \<lparr>status = Some ''completed'', progress = Some 100,
                 currentStep = Some ''Package generation completed'', resumable = None,
                 sections = Some [(''hostGuide'', True), (''characters'', True), (''clues'', True),
                                  (''inspectorScript'', True), (''characterMatrix'', True)],
                 error = None\<rparr>,
            write_completed env mysteryId s, [])"
proof (intro conjI ballI impI)
  from recognized have "status st \<noteq> Some ''completed''" by auto
  with read_ok write_ok latest complete stored
  have "getPackageGenerationStatus env s mysteryId =
           (Inr completedStatus, write_completed env mysteryId s,
            [Update ''mystery_packages'' (Some (JObj completedStatus))])"
    by (rule reconcile_corrects)
  then show "getPackageGenerationStatus env s mysteryId =
           (Inr \<lparr>status = Some ''completed'', progress = Some 100,
                 currentStep = Some ''Package generation completed'', resumable = None,
                 sections = Some [(''hostGuide'', True), (''characters'', True), (''clues'', True),
                                  (''inspectorScript'', True), (''characterMatrix'', True)],
                 error = None\<rparr>,
            write_completed env mysteryId s,
            [Update ''mystery_packages'' (Some (JObj completedStatus))])"
    by (simp add: completedStatus_def)
next
  fix r
  assume "r \<in> set (mystery_packages (write_completed env mysteryId s))"
    and "conversation_id r = mysteryId"
  then show "generation_status r = JObj completedStatus" by (rule write_completed_rows)
next
  from latest obtain r' where
    r': "latest_package (write_completed env mysteryId s) mysteryId = Some r'"
        "generation_status r' = JObj completedStatus"
    using latest_after_write_completed by blast
  have "status completedStatus = Some ''completed''" by (simp add: completedStatus_def)
  with read_ok' r'
  have "getPackageGenerationStatus env' (write_completed env mysteryId s) mysteryId =
          (Inr (normalizedStatus completedStatus), write_completed env mysteryId s, [])"
    by (rule reconcile_stored_completed)
  then show "getPackageGenerationStatus env' (write_completed env mysteryId s) mysteryId =
           (Inr \<lparr>status = Some ''completed'', progress = Some 100,
                 currentStep = Some ''Package generation completed'', resumable = None,
                 sections = Some [(''hostGuide'', True), (''characters'', True), (''clues'', True),
                                  (''inspectorScript'', True), (''characterMatrix'', True)],
                 error = None\<rparr>,
            write_completed env mysteryId s, [])"
    by (simp add: normalizedStatus_completedStatus) (simp add: completedStatus_def)
qed

theorem self_healing_witness:
  "getPackageGenerationStatus (no_errors 100)
       (example_store (example_row (Some ''X'') (Some ''Y'') (JObj sentStatus))) ''c1''
     = (Inr \<lparr>status = Some ''completed'', progress = Some 100,
                 currentStep = Some ''Package generation completed'', resumable = None,
                 sections = Some [(''hostGuide'', True), (''characters'', True), (''clues'', True),
                                  (''inspectorScript'', True), (''characterMatrix'', True)],
                 error = None\<rparr>,
        write_completed (no_errors 100) ''c1''
          (example_store (example_row (Some ''X'') (Some ''Y'') (JObj sentStatus))),
        [Update ''mystery_packages'' (Some (JObj completedStatus))])
   \<and> getPackageGenerationStatus (no_errors 200)
        (write_completed (no_errors 100) ''c1''
          (example_store (example_row (Some ''X'') (Some ''Y'') (JObj sentStatus)))) ''c1''
     = (Inr \<lparr>status = Some ''completed'', progress = Some 100,
                 currentStep = Some ''Package generation completed'', resumable = None,
                 sections = Some [(''hostGuide'', True), (''characters'', True), (''clues'', True),
                                  (''inspectorScript'', True), (''characterMatrix'', True)],
                 error = None\<rparr>,
        write_completed (no_errors 100) ''c1''
          (example_store (example_row (Some ''X'') (Some ''Y'') (JObj sentStatus))), [])"
proof -
  let ?row = "example_row (Some ''X'') (Some ''Y'') (JObj sentStatus)"
  have 1: "errors (no_errors 100) ''error'' = None" "errors (no_errors 100) ''updateError'' = None"
    "errors (no_errors 200) ''error'' = None"
    by (simp_all add: no_errors_def)
  have 2: "latest_package (example_store ?row) ''c1'' = Some ?row"
    by (simp add: example_defs latest_package_def)
  have 3: "contentComplete (example_store ?row) ?row"
    "0 < length (characters_of (example_store ?row) (pkg_id ?row))"
    by (simp_all add: example_defs contentComplete_def characters_count_embed_def characters_of_def
        truthy_def)
  have 4: "generation_status ?row = JObj sentStatus" by (simp add: example_defs)
  have 5: "status sentStatus = Some ''not_started'' \<or> status sentStatus = Some ''in_progress''
                       \<or> status sentStatus = Some ''failed''"
    by (simp add: sentStatus_def)
  from self_healing [OF 1 2 3 4 5] show ?thesis by blast
qed

text \<open>
  C1 as stated fails when the corrective write returns an error: the content is
  complete, the stored status is \<open>in_progress\<close>, and the call returns
  \<open>in_progress\<close> and leaves the store as it was.
\<close>

theorem self_healing_counterexample:
  "contentComplete (example_store (example_row (Some ''X'') (Some ''Y'') (JObj sentStatus)))
      (example_row (Some ''X'') (Some ''Y'') (JObj sentStatus)) \<and>
   characters_of (example_store (example_row (Some ''X'') (Some ''Y'') (JObj sentStatus)))
      (pkg_id (example_row (Some ''X'') (Some ''Y'') (JObj sentStatus))) = [example_character] \<and>
   latest_package (example_store (example_row (Some ''X'') (Some ''Y'') (JObj sentStatus))) ''c1''
     = Some (example_row (Some ''X'') (Some ''Y'') (JObj sentStatus)) \<and>
   status_of (generation_status (example_row (Some ''X'') (Some ''Y'') (JObj sentStatus)))
     = Some ''in_progress'' \<and>
   getPackageGenerationStatus (failing ''updateError'' 100)
       (example_store (example_row (Some ''X'') (Some ''Y'') (JObj sentStatus))) ''c1''
     = (Inr \<lparr>status = Some ''in_progress'', progress = Some 20,
              currentStep = Some ''Processing by external service...'', resumable = None,
              sections = Some [], error = None\<rparr>,
        example_store (example_row (Some ''X'') (Some ''Y'') (JObj sentStatus)),
        [Update ''mystery_packages'' (Some (JObj completedStatus))])"
  by (simp add: example_defs reconcile_defs sentStatus_def)

text \<open>
  C2, as amended.  When the read succeeds and the latest row's stored status is
  \<open>completed\<close>, the call returns \<open>completed\<close>, sends no write and leaves the
  store unchanged.  Whatever the environment, every package row whose stored
  status was \<open>completed\<close> before the call still has the stored status
  \<open>completed\<close> after it.
\<close>

theorem completed_is_kept:
  "(errors env ''error'' = None \<and> latest_package s mysteryId = Some row
      \<and> status_of (generation_status row) = Some ''completed''
    \<longrightarrow> (\<exists>st. getPackageGenerationStatus env s mysteryId = (Inr st, s, [])
              \<and> status st = Some ''completed'')) \<and>
   list_all2 (\<lambda>r r'. status_of (generation_status r) = Some ''completed''
                   \<longrightarrow> status_of (generation_status r') = Some ''completed'')
      (mystery_packages s)
      (mystery_packages (fst (snd (getPackageGenerationStatus env s mysteryId))))"
proof (intro conjI impI)
  assume h: "errors env ''error'' = None \<and> latest_package s mysteryId = Some row
      \<and> status_of (generation_status row) = Some ''completed''"
  then obtain st where st: "generation_status row = JObj st" "status st = Some ''completed''"
    by (auto elim: status_of_completedE)
  with h have "getPackageGenerationStatus env s mysteryId = (Inr (normalizedStatus st), s, [])"
    by (simp add: reconcile_stored_completed)
  with st show "\<exists>st. getPackageGenerationStatus env s mysteryId = (Inr st, s, [])
              \<and> status st = Some ''completed''"
    by (simp add: normalizedStatus_status_completed)
next
  from reconcile_store_cases [of env s mysteryId]
  show "list_all2 (\<lambda>r r'. status_of (generation_status r) = Some ''completed''
                   \<longrightarrow> status_of (generation_status r') = Some ''completed'')
      (mystery_packages s)
      (mystery_packages (fst (snd (getPackageGenerationStatus env s mysteryId))))"
  proof
    assume "fst (snd (getPackageGenerationStatus env s mysteryId)) = s"
    then show ?thesis by (simp only: ratchet_same)
  next
    assume "fst (snd (getPackageGenerationStatus env s mysteryId)) = write_completed env mysteryId s"
    then show ?thesis by (simp only: ratchet_write_completed)
  qed
qed

theorem completed_is_kept_witness:
  "\<exists>st. getPackageGenerationStatus (no_errors 100)
          (example_store (example_row (Some ''X'') (Some ''Y'') (JObj completedStatus))) ''c1''
        = (Inr st, example_store (example_row (Some ''X'') (Some ''Y'') (JObj completedStatus)), [])
      \<and> status st = Some ''completed''"
proof -
  let ?row = "example_row (Some ''X'') (Some ''Y'') (JObj completedStatus)"
  have "errors (no_errors 100) ''error'' = None \<and> latest_package (example_store ?row) ''c1'' = Some ?row
      \<and> status_of (generation_status ?row) = Some ''completed''"
    by (simp add: example_defs latest_package_def status_of_def completedStatus_def)
  with completed_is_kept [of "no_errors 100" "example_store ?row" "''c1''" ?row]
  show ?thesis by blast
qed

text \<open>
  C2 as stated fails when the read returns an error: the stored status is
  \<open>completed\<close> and the call returns \<open>not_started\<close>.
\<close>

theorem ratchet_counterexample:
  "latest_package (example_store (example_row (Some ''X'') (Some ''Y'') (JObj completedStatus))) ''c1''
     = Some (example_row (Some ''X'') (Some ''Y'') (JObj completedStatus)) \<and>
   status_of (generation_status (example_row (Some ''X'') (Some ''Y'') (JObj completedStatus)))
     = Some ''completed'' \<and>
   fst (getPackageGenerationStatus (failing ''error'' 100)
       (example_store (example_row (Some ''X'') (Some ''Y'') (JObj completedStatus))) ''c1'')
     = Inr \<lparr>status = Some ''not_started'', progress = Some 0,
              currentStep = Some ''Error checking status'', resumable = None,
              sections = Some [], error = None\<rparr>"
  by (simp add: example_defs reconcile_defs completedStatus_def errorStatus_def)

text \<open>
  C6, as amended.  Let the read of \<open>getPackageGenerationStatus\<close> succeed.  When
  the stored \<open>generation_status\<close> of the latest row is \<open>null\<close> or not an object,
  it infers \<open>completed\<close> if \<open>generation_completed_at\<close> is present or the row has
  a title, a host guide and at least one character row; and if
  \<open>generation_completed_at\<close> is absent and the title or the host guide is
  missing, it infers \<open>in_progress\<close> with progress 50 and the step
  \<open>Package generation in progress...\<close> when \<open>generation_started_at\<close> is
  present, else \<open>not_started\<close>.  When the stored value is an object and the
  title or the host guide is missing, the object is returned with its missing
  fields defaulted and nothing is written: its \<open>status\<close> is returned as it is,
  or as \<open>not_started\<close> when it is missing or empty.  The flags
  \<open>has_complete_package\<close> and \<open>is_paid\<close> of the conversation are read by
  \<open>checkGenerationStatus\<close>: when at least 10 seconds have passed since its last
  check and its read of the conversation succeeds and finds one of them true, it
  returns the forced \<open>completed\<close> status.
\<close>

theorem fallback_inference:
  "(errors env ''error'' = None \<and> latest_package s mysteryId = Some row
      \<and> (\<forall>st. generation_status row \<noteq> JObj st)
      \<and> (generation_completed_at row \<noteq> None
           \<or> (truthy (title row) \<and> truthy (host_guide row)
                \<and> 0 < length (characters_of s (pkg_id row))))
    \<longrightarrow> fst (getPackageGenerationStatus env s mysteryId) = Inr completedStatus) \<and>
   (errors env ''error'' = None \<and> latest_package s mysteryId = Some row
      \<and> (\<forall>st. generation_status row \<noteq> JObj st)
      \<and> generation_completed_at row = None
      \<and> \<not> (truthy (title row) \<and> truthy (host_guide row))
    \<longrightarrow> fst (getPackageGenerationStatus env s mysteryId) =
           Inr (if generation_started_at row \<noteq> None then inProgressStatus else defaultStatus)) \<and>
   status completedStatus = Some ''completed'' \<and>
   status inProgressStatus = Some ''in_progress'' \<and> progress inProgressStatus = Some 50 \<and>
   currentStep inProgressStatus = Some ''Package generation in progress...'' \<and>
   status defaultStatus = Some ''not_started'' \<and>
   (errors env ''error'' = None \<and> latest_package s mysteryId = Some row
      \<and> generation_status row = JObj st
      \<and> \<not> (truthy (title row) \<and> truthy (host_guide row))
    \<longrightarrow> getPackageGenerationStatus env s mysteryId = (Inr (normalizedStatus st), s, [])
      \<and> status (normalizedStatus st) = (if truthy (status st) then status st else Some ''not_started'')) \<and>
   (10000 \<le> int t - int (lastStatusCheck v) \<and> errors env ''conversationError'' = None
      \<and> find_conversation s mysteryId = Some c
      \<and> (has_complete_package c = Some True \<or> is_paid c = Some True)
    \<longrightarrow> fst (checkGenerationStatus env t v s mysteryId) = Some forcedStatus \<and>
        status forcedStatus = Some ''completed'')"
proof -
  have 1: "errors env ''error'' = None \<and> latest_package s mysteryId = Some row
      \<and> (\<forall>st. generation_status row \<noteq> JObj st)
      \<and> (generation_completed_at row \<noteq> None
           \<or> (truthy (title row) \<and> truthy (host_guide row)
                \<and> 0 < length (characters_of s (pkg_id row))))
    \<longrightarrow> fst (getPackageGenerationStatus env s mysteryId) = Inr completedStatus"
    using reconcile_not_object_complete [of env s mysteryId row] by blast
  have 2: "errors env ''error'' = None \<and> latest_package s mysteryId = Some row
      \<and> (\<forall>st. generation_status row \<noteq> JObj st)
      \<and> generation_completed_at row = None
      \<and> \<not> (truthy (title row) \<and> truthy (host_guide row))
    \<longrightarrow> fst (getPackageGenerationStatus env s mysteryId) =
           Inr (if generation_started_at row \<noteq> None then inProgressStatus else defaultStatus)"
    using reconcile_not_object_incomplete [of env s mysteryId row] by blast
  have 3: "status completedStatus = Some ''completed''"
    "status inProgressStatus = Some ''in_progress''" "progress inProgressStatus = Some 50"
    "currentStep inProgressStatus = Some ''Package generation in progress...''"
    "status defaultStatus = Some ''not_started''" "status forcedStatus = Some ''completed''"
    by (simp_all add: completedStatus_def inProgressStatus_def defaultStatus_def forcedStatus_def)
  have 4: "errors env ''error'' = None \<and> latest_package s mysteryId = Some row
      \<and> generation_status row = JObj st
      \<and> \<not> (truthy (title row) \<and> truthy (host_guide row))
    \<longrightarrow> getPackageGenerationStatus env s mysteryId = (Inr (normalizedStatus st), s, [])
      \<and> status (normalizedStatus st) = (if truthy (status st) then status st else Some ''not_started'')"
    using reconcile_object_incomplete [of env s mysteryId row st] normalizedStatus_status [of st]
    by blast
  have 5: "10000 \<le> int t - int (lastStatusCheck v) \<and> errors env ''conversationError'' = None
      \<and> find_conversation s mysteryId = Some c
      \<and> (has_complete_package c = Some True \<or> is_paid c = Some True)
    \<longrightarrow> fst (checkGenerationStatus env t v s mysteryId) = Some forcedStatus \<and>
        status forcedStatus = Some ''completed''"
    using check_forced_by_flags [of t v env s mysteryId c] 3(6) by blast
  from 1 2 3(1-5) 4 5 show ?thesis by (intro conjI)
qed

theorem fallback_inference_witness:
  "fst (getPackageGenerationStatus (no_errors 100)
          (example_store (example_row (Some ''X'') (Some ''Y'') JNull)) ''c1'')
     = Inr completedStatus \<and>
   fst (getPackageGenerationStatus (no_errors 100) (example_store (example_row None None JNull)) ''c1'')
     = Inr inProgressStatus \<and>
   getPackageGenerationStatus (no_errors 100)
       (example_store (example_row None None (JObj queuedStatus))) ''c1''
     = (Inr (normalizedStatus queuedStatus), example_store (example_row None None (JObj queuedStatus)), []) \<and>
   fst (checkGenerationStatus (no_errors 100) 20000 initial_view
         (paid_store (example_row None None JNull)) ''c1'')
     = Some forcedStatus"
proof -
  let ?x = "example_row (Some ''X'') (Some ''Y'') JNull"
  let ?r = "example_row None None JNull"
  let ?q = "example_row None None (JObj queuedStatus)"
  have x: "errors (no_errors 100) ''error'' = None \<and> latest_package (example_store ?x) ''c1'' = Some ?x
      \<and> (\<forall>st. generation_status ?x \<noteq> JObj st)
      \<and> (generation_completed_at ?x \<noteq> None
           \<or> (truthy (title ?x) \<and> truthy (host_guide ?x)
                \<and> 0 < length (characters_of (example_store ?x) (pkg_id ?x))))"
    by (simp add: example_defs latest_package_def characters_of_def truthy_def)
  have a: "errors (no_errors 100) ''error'' = None \<and> latest_package (example_store ?r) ''c1'' = Some ?r
      \<and> (\<forall>st. generation_status ?r \<noteq> JObj st)
      \<and> generation_completed_at ?r = None
      \<and> \<not> (truthy (title ?r) \<and> truthy (host_guide ?r))"
    by (simp add: example_defs latest_package_def truthy_def)
  have a': "generation_started_at ?r \<noteq> None"
    by (simp add: example_defs)
  have b: "errors (no_errors 100) ''error'' = None \<and> latest_package (example_store ?q) ''c1'' = Some ?q
      \<and> generation_status ?q = JObj queuedStatus
      \<and> \<not> (truthy (title ?q) \<and> truthy (host_guide ?q))"
    by (simp add: example_defs latest_package_def truthy_def)
  have c: "10000 \<le> int 20000 - int (lastStatusCheck initial_view)
      \<and> errors (no_errors 100) ''conversationError'' = None
      \<and> find_conversation (paid_store ?r) ''c1'' = Some (example_conversation\<lparr>is_paid := Some True\<rparr>)
      \<and> (has_complete_package (example_conversation\<lparr>is_paid := Some True\<rparr>) = Some True
           \<or> is_paid (example_conversation\<lparr>is_paid := Some True\<rparr>) = Some True)"
    by (simp add: example_defs paid_store_def initial_view_def find_conversation_def)
  from fallback_inference [of "no_errors 100" "example_store ?x" "''c1''" ?x] x
  have 0: "fst (getPackageGenerationStatus (no_errors 100) (example_store ?x) ''c1'') = Inr completedStatus"
    by blast
  from fallback_inference [of "no_errors 100" "example_store ?r" "''c1''" ?r] a a'
  have 1: "fst (getPackageGenerationStatus (no_errors 100) (example_store ?r) ''c1'') = Inr inProgressStatus"
    by simp
  from fallback_inference [of "no_errors 100" "example_store ?q" "''c1''" ?q queuedStatus] b
  have 2: "getPackageGenerationStatus (no_errors 100) (example_store ?q) ''c1''
     = (Inr (normalizedStatus queuedStatus), example_store ?q, [])"
    by blast
  from fallback_inference [of "no_errors 100" "paid_store ?r" "''c1''" _ _ 20000 initial_view
      "example_conversation\<lparr>is_paid := Some True\<rparr>"] c
  have 3: "fst (checkGenerationStatus (no_errors 100) 20000 initial_view (paid_store ?r) ''c1'')
             = Some forcedStatus"
    by blast
  from 0 1 2 3 show ?thesis by blast
qed

text \<open>
  C6 as stated fails for a stored status object whose \<open>status\<close> is not a value
  of the enum: with \<open>generation_started_at\<close> present, no completion date, no
  content and both conversation flags false, the result is that \<open>status\<close>
  unchanged with progress 0, not \<open>in_progress\<close> with progress 50; this holds for
  \<open>getPackageGenerationStatus\<close> and for \<open>checkGenerationStatus\<close>.  It also
  fails for the flags: with \<open>is_paid\<close> true, a stored status \<open>null\<close>, a start
  date and nothing else, \<open>getPackageGenerationStatus\<close> returns \<open>in_progress\<close>,
  and so does \<open>checkGenerationStatus\<close> when its read of the conversation returns
  an error; a check within 10 seconds of the last one returns the status the view
  holds, here none.
\<close>

theorem fallback_inference_counterexample:
  "latest_package (example_store (example_row None None (JObj queuedStatus))) ''c1''
     = Some (example_row None None (JObj queuedStatus)) \<and>
   status_of (generation_status (example_row None None (JObj queuedStatus))) = Some ''queued'' \<and>
   generation_started_at (example_row None None (JObj queuedStatus)) = Some 5 \<and>
   generation_completed_at (example_row None None (JObj queuedStatus)) = None \<and>
   title (example_row None None (JObj queuedStatus)) = None \<and>
   is_paid example_conversation = Some False \<and>
   has_complete_package example_conversation = Some False \<and>
   fst (getPackageGenerationStatus (no_errors 100)
         (example_store (example_row None None (JObj queuedStatus))) ''c1'')
     = Inr \<lparr>status = Some ''queued'', progress = Some 0, currentStep = Some ''Unknown step'',
            resumable = None, sections = Some [], error = None\<rparr> \<and>
   fst (checkGenerationStatus (no_errors 100) 20000 initial_view
         (example_store (example_row None None (JObj queuedStatus))) ''c1'')
     = Some \<lparr>status = Some ''queued'', progress = Some 0, currentStep = Some ''Unknown step'',
            resumable = None, sections = Some [], error = None\<rparr> \<and>
   find_conversation (paid_store (example_row None None JNull)) ''c1''
     = Some (example_conversation\<lparr>is_paid := Some True\<rparr>) \<and>
   fst (getPackageGenerationStatus (no_errors 100) (paid_store (example_row None None JNull)) ''c1'')
     = Inr \<lparr>status = Some ''in_progress'', progress = Some 50,
            currentStep = Some ''Package generation in progress...'',
            resumable = None, sections = Some [], error = None\<rparr> \<and>
   fst (checkGenerationStatus (failing ''conversationError'' 100) 20000 initial_view
         (paid_store (example_row None None JNull)) ''c1'')
     = Some \<lparr>status = Some ''in_progress'', progress = Some 50,
            currentStep = Some ''Package generation in progress...'',
            resumable = None, sections = Some [], error = None\<rparr> \<and>
   fst (checkGenerationStatus (no_errors 100) 20000 (initial_view\<lparr>lastStatusCheck := 15000\<rparr>)
         (paid_store (example_row None None JNull)) ''c1'')
     = None"
  by (simp add: example_defs reconcile_defs queuedStatus_def checkGenerationStatus_def
      initial_view_def hasActualContent_def conversationIndicatesComplete_def
      packageStatusComplete_def find_conversation_def paid_store_def inProgressStatus_def)

text \<open>
  C7.  \<open>getPackageGenerationStatus\<close> always returns a status and never an error.
  When the read succeeds and the conversation has no package row, it returns
  \<open>not_started\<close> with progress 0 and leaves the store alone.  When the read
  fails, it returns \<open>not_started\<close> with progress 0 and the step
  \<open>Error checking status\<close>, again without a write.
\<close>

theorem reconcile_never_throws:
  "(\<exists>st. fst (getPackageGenerationStatus env s mysteryId) = Inr st) \<and>
   (errors env ''error'' = None \<and> latest_package s mysteryId = None \<longrightarrow>
      getPackageGenerationStatus env s mysteryId =
        (Inr \<lparr>status = Some ''not_started'', progress = Some 0, currentStep = Some ''Not started'',
              resumable = None, sections = Some [], error = None\<rparr>, s, [])) \<and>
   (errors env ''error'' \<noteq> None \<longrightarrow>
      getPackageGenerationStatus env s mysteryId =
        (Inr \<lparr>status = Some ''not_started'', progress = Some 0,
              currentStep = Some ''Error checking status'',
              resumable = None, sections = Some [], error = None\<rparr>, s, []))"
proof (intro conjI impI)
  show "\<exists>st. fst (getPackageGenerationStatus env s mysteryId) = Inr st"
    by (cases "getPackageGenerationStatus_try env s mysteryId")
       (auto simp: getPackageGenerationStatus_def split: sum.splits)
next
  assume "errors env ''error'' = None \<and> latest_package s mysteryId = None"
  then show "getPackageGenerationStatus env s mysteryId =
        (Inr \<lparr>status = Some ''not_started'', progress = Some 0, currentStep = Some ''Not started'',
              resumable = None, sections = Some [], error = None\<rparr>, s, [])"
    by (simp add: getPackageGenerationStatus_def getPackageGenerationStatus_try_def defaultStatus_def)
next
  assume "errors env ''error'' \<noteq> None"
  then show "getPackageGenerationStatus env s mysteryId =
        (Inr \<lparr>status = Some ''not_started'', progress = Some 0,
              currentStep = Some ''Error checking status'',
              resumable = None, sections = Some [], error = None\<rparr>, s, [])"
    by (auto simp: getPackageGenerationStatus_def getPackageGenerationStatus_try_def errorStatus_def)
qed

theorem reconcile_never_throws_witness:
  "getPackageGenerationStatus (no_errors 100)
      (example_store (example_row None None JNull)) ''c2'' =
        (Inr \<lparr>status = Some ''not_started'', progress = Some 0, currentStep = Some ''Not started'',
              resumable = None, sections = Some [], error = None\<rparr>,
         example_store (example_row None None JNull), []) \<and>
   getPackageGenerationStatus (failing ''error'' 100)
      (example_store (example_row None None JNull)) ''c1'' =
        (Inr \<lparr>status = Some ''not_started'', progress = Some 0,
              currentStep = Some ''Error checking status'',
              resumable = None, sections = Some [], error = None\<rparr>,
         example_store (example_row None None JNull), [])"
proof -
  have a: "errors (no_errors 100) ''error'' = None \<and>
           latest_package (example_store (example_row None None JNull)) ''c2'' = None"
    by (simp add: example_defs latest_package_def)
  have b: "errors (failing ''error'' 100) ''error'' \<noteq> None"
    by (simp add: failing_def)
  from reconcile_never_throws [of "no_errors 100" "example_store (example_row None None JNull)" "''c2''"] a
    reconcile_never_throws [of "failing ''error'' 100" "example_store (example_row None None JNull)" "''c1''"] b
  show ?thesis by blast
qed

subsection \<open>generateCompletePackage\<close>

lemmas generate_defs = generateCompletePackage_def generateCompletePackage_try_def
  create_or_update_record_def call_webhook_trigger_def write_status_def update_packages_def
  latest_package_def find_conversation_def status_of_def Let_def

lemma guard_completed:
  assumes "errors env ''existingPackageErr'' = None"
    and "latest_package s mysteryId = Some row"
    and "status_of (generation_status row) = Some ''completed''"
  shows "generateCompletePackage env s mysteryId testMode = (Inr ''already_completed'', s, [])"
  using assms by (simp add: generateCompletePackage_def generateCompletePackage_try_def)

lemma guard_in_progress:
  assumes "errors env ''existingPackageErr'' = None"
    and "latest_package s mysteryId = Some row"
    and "status_of (generation_status row) = Some ''in_progress''"
  shows "generateCompletePackage env s mysteryId testMode = (Inr ''already_in_progress'', s, [])"
  using assms by (simp add: generateCompletePackage_def generateCompletePackage_try_def)

lemma create_or_update_record_row:
  assumes "create_or_update_record env s mysteryId = (Inr pid, s1, evs1)"
  shows "\<exists>r \<in> set (mystery_packages s1). pkg_id r = pid \<and> conversation_id r = mysteryId"
proof (cases "if errors env ''checkError'' = None then latest_package s mysteryId else None")
  case None
  with assms show ?thesis
    by (auto simp: create_or_update_record_def Let_def new_package_def split: if_splits)
next
  case (Some row)
  then have l: "latest_package s mysteryId = Some row" by (simp split: if_splits)
  then have mem: "row \<in> set (mystery_packages s)" and cid: "conversation_id row = mysteryId"
    using latest_package_in_store by blast+
  let ?f = "\<lambda>r. r\<lparr>generation_status := JObj initialStatus,
                   generation_started_at := Some (now env), updated_at := now env\<rparr>"
  from assms Some have pid: "pid = pkg_id row"
    and s1: "s1 = update_packages (\<lambda>r. pkg_id r = pkg_id row) ?f s"
    by (auto simp: create_or_update_record_def Let_def split: if_splits)
  from mem have "?f row \<in> set (mystery_packages s1)"
    unfolding s1 update_packages_def by (auto intro!: image_eqI [where x = row])
  with pid cid show ?thesis by (intro bexI [where x = "?f row"]) simp_all
qed

lemma create_or_update_record_events:
  assumes "create_or_update_record env s mysteryId = (Inr pid, s1, evs1)"
  shows "outbound_calls evs1 = 0 \<and> length evs1 = 1"
  using assms
  by (auto simp: create_or_update_record_def Let_def outbound_calls_def
      split: if_splits option.splits)

lemma create_or_update_record_rows:
  assumes "create_or_update_record env s mysteryId = (Inr pid, s1, evs1)"
    and "r \<in> set (mystery_packages s1)"
  shows "pkg_id r = pid \<or> r \<in> set (mystery_packages s)"
proof (cases "if errors env ''checkError'' = None then latest_package s mysteryId else None")
  case None
  with assms show ?thesis
    by (auto simp: create_or_update_record_def Let_def new_package_def split: if_splits)
next
  case (Some row)
  let ?f = "\<lambda>r. r\<lparr>generation_status := JObj initialStatus,
                   generation_started_at := Some (now env), updated_at := now env\<rparr>"
  from assms(1) Some have pid: "pid = pkg_id row"
    and s1: "s1 = update_packages (\<lambda>r. pkg_id r = pkg_id row) ?f s"
    by (auto simp: create_or_update_record_def Let_def split: if_splits)
  from assms(2) have "r \<in> (\<lambda>x. if pkg_id x = pkg_id row then ?f x else x) ` set (mystery_packages s)"
    by (simp add: s1 update_packages_def)
  then obtain x where x: "x \<in> set (mystery_packages s)"
    and r: "r = (if pkg_id x = pkg_id row then ?f x else x)"
    by (rule imageE)
  show ?thesis
  proof (cases "pkg_id x = pkg_id row")
    case True
    with r pid show ?thesis by simp
  next
    case False
    with r x show ?thesis by simp
  qed
qed

lemma write_status_rows:
  "r \<in> set (mystery_packages (write_status env pid st s)) \<Longrightarrow> pkg_id r = pid
     \<Longrightarrow> generation_status r = JObj st"
proof -
  assume a: "r \<in> set (mystery_packages (write_status env pid st s))" and b: "pkg_id r = pid"
  let ?f = "\<lambda>r. r\<lparr>generation_status := JObj st, updated_at := now env\<rparr>"
  from a have "r \<in> (\<lambda>x. if pkg_id x = pid then ?f x else x) ` set (mystery_packages s)"
    by (simp add: write_status_def update_packages_def)
  then obtain x where "r = (if pkg_id x = pid then ?f x else x)"
    by (rule imageE)
  with b show ?thesis by (cases "pkg_id x = pid") simp_all
qed

lemma write_status_rows_cases:
  assumes "r \<in> set (mystery_packages (write_status env pid st s))"
  shows "(generation_status r = JObj st \<and> updated_at r = now env)
          \<or> (r \<in> set (mystery_packages s) \<and> pkg_id r \<noteq> pid)"
proof -
  let ?f = "\<lambda>r. r\<lparr>generation_status := JObj st, updated_at := now env\<rparr>"
  from assms have "r \<in> (\<lambda>x. if pkg_id x = pid then ?f x else x) ` set (mystery_packages s)"
    by (simp add: write_status_def update_packages_def)
  then obtain x where x: "x \<in> set (mystery_packages s)"
    and r: "r = (if pkg_id x = pid then ?f x else x)"
    by (rule imageE)
  show ?thesis
  proof (cases "pkg_id x = pid")
    case True
    with r show ?thesis by simp
  next
    case False
    with r x show ?thesis by simp
  qed
qed

lemma write_status_keeps_row:
  assumes "\<exists>r \<in> set (mystery_packages s). pkg_id r = pid \<and> conversation_id r = cid"
  shows "\<exists>r \<in> set (mystery_packages (write_status env pid st s)). pkg_id r = pid \<and> conversation_id r = cid"
proof -
  let ?f = "\<lambda>r. r\<lparr>generation_status := JObj st, updated_at := now env\<rparr>"
  from assms obtain r where r: "r \<in> set (mystery_packages s)" "pkg_id r = pid" "conversation_id r = cid"
    by blast
  then have "?f r \<in> set (mystery_packages (write_status env pid st s))"
    unfolding write_status_def update_packages_def by (auto intro!: image_eqI [where x = r])
  with r show ?thesis by (intro bexI [where x = "?f r"]) simp_all
qed

lemma generate_without_trigger:
  assumes "create_or_update_record env s mysteryId = (Inl err, s1, evs1)"
  shows "outbound_calls (snd (snd (generateCompletePackage env s mysteryId testMode))) = 0"
proof -
  from assms have "outbound_calls evs1 = 0"
    by (auto simp: create_or_update_record_def Let_def outbound_calls_def
        split: if_splits option.splits)
  with assms show ?thesis
    by (cases err) (auto simp add: generateCompletePackage_def generateCompletePackage_try_def
        Let_def outbound_calls_def split: option.splits)
qed

lemma generate_trigger_fails:
  assumes "errors env ''webhookError'' = Some e"
    and "outbound_calls (snd (snd (generateCompletePackage env s mysteryId testMode))) \<noteq> 0"
  shows "\<exists>pid s1 evs1. create_or_update_record env s mysteryId = (Inr pid, s1, evs1) \<and>
           generateCompletePackage env s mysteryId testMode =
             (Inl (Error (''Package generation failed: Failed to trigger generation: '' @ message e)),
              write_status env pid
                (failedStatus ''Unexpected error during generation''
                   (''Failed to trigger generation: '' @ message e))
                (write_status env pid (failedStatus ''Failed to trigger generation'' (message e)) s1),
              evs1 @ [Invoke ''mystery-webhook-trigger'' mysteryId testMode,
                      Update ''mystery_packages''
                        (Some (JObj (failedStatus ''Failed to trigger generation'' (message e)))),
                      Update ''mystery_packages''
                        (Some (JObj (failedStatus ''Unexpected error during generation''
                                       (''Failed to trigger generation: '' @ message e))))])"
proof -
  obtain r1 s1 evs1 where c: "create_or_update_record env s mysteryId = (r1, s1, evs1)"
    by (cases "create_or_update_record env s mysteryId") auto
  show ?thesis
  proof (cases r1)
    case (Inl err)
    with c have "outbound_calls (snd (snd (generateCompletePackage env s mysteryId testMode))) = 0"
      by (intro generate_without_trigger) simp
    with assms(2) show ?thesis by simp
  next
    case (Inr pid)
    with c have c': "create_or_update_record env s mysteryId = (Inr pid, s1, evs1)" by simp
    from assms(2) have "generateCompletePackage env s mysteryId testMode =
             (Inl (Error (''Package generation failed: Failed to trigger generation: '' @ message e)),
              write_status env pid
                (failedStatus ''Unexpected error during generation''
                   (''Failed to trigger generation: '' @ message e))
                (write_status env pid (failedStatus ''Failed to trigger generation'' (message e)) s1),
              evs1 @ [Invoke ''mystery-webhook-trigger'' mysteryId testMode,
                      Update ''mystery_packages''
                        (Some (JObj (failedStatus ''Failed to trigger generation'' (message e)))),
                      Update ''mystery_packages''
                        (Some (JObj (failedStatus ''Unexpected error during generation''
                                       (''Failed to trigger generation: '' @ message e))))])"
      using c' assms(1)
      by (auto simp add: generateCompletePackage_def generateCompletePackage_try_def Let_def
          call_webhook_trigger_def outbound_calls_def split: option.splits if_splits)
    with c' show ?thesis by blast
  qed
qed

lemma generate_started:
  assumes "generateCompletePackage env s mysteryId testMode =
             (Inr ''Package generation started successfully'', s', evs)"
  shows "\<exists>pid s1 evs1. create_or_update_record env s mysteryId = (Inr pid, s1, evs1) \<and>
           s' = write_status env pid sentStatus s1 \<and>
           evs = evs1 @ [Invoke ''mystery-webhook-trigger'' mysteryId testMode,
                         Update ''mystery_packages'' (Some (JObj sentStatus))]"
proof -
  obtain r1 s1 evs1 where c: "create_or_update_record env s mysteryId = (r1, s1, evs1)"
    by (cases "create_or_update_record env s mysteryId") auto
  show ?thesis
  proof (cases r1)
    case (Inl err)
    with assms c show ?thesis
      by (cases err) (auto simp add: generateCompletePackage_def generateCompletePackage_try_def
          Let_def split: option.splits if_splits)
  next
    case (Inr pid)
    with c have c': "create_or_update_record env s mysteryId = (Inr pid, s1, evs1)" by simp
    with assms have "s' = write_status env pid sentStatus s1 \<and>
           evs = evs1 @ [Invoke ''mystery-webhook-trigger'' mysteryId testMode,
                         Update ''mystery_packages'' (Some (JObj sentStatus))]"
      by (auto simp add: generateCompletePackage_def generateCompletePackage_try_def Let_def
          call_webhook_trigger_def split: option.splits if_splits)
    with c' show ?thesis by blast
  qed
qed

lemma latest_after_start:
  assumes gen: "generateCompletePackage env s mysteryId testMode =
             (Inr ''Package generation started successfully'', s', evs)"
    and clock: "\<forall>r \<in> set (mystery_packages s). conversation_id r = mysteryId \<longrightarrow> updated_at r < now env"
  shows "outbound_calls evs = 1 \<and>
         (\<exists>r. latest_package s' mysteryId = Some r \<and> generation_status r = JObj sentStatus)"
proof -
  from gen obtain pid s1 evs1 where
    c: "create_or_update_record env s mysteryId = (Inr pid, s1, evs1)" and
    s': "s' = write_status env pid sentStatus s1" and
    evs: "evs = evs1 @ [Invoke ''mystery-webhook-trigger'' mysteryId testMode,
                         Update ''mystery_packages'' (Some (JObj sentStatus))]"
    using generate_started by blast
  from c have "outbound_calls evs1 = 0" by (simp add: create_or_update_record_events)
  with evs have calls: "outbound_calls evs = 1" by (simp add: outbound_calls_def)
  have rows: "\<forall>r \<in> set (mystery_packages s'). conversation_id r = mysteryId \<longrightarrow>
                   (generation_status r = JObj sentStatus \<and> updated_at r = now env)
                     \<or> updated_at r < now env"
  proof (intro ballI impI)
    fix r assume r: "r \<in> set (mystery_packages s')" and cid: "conversation_id r = mysteryId"
    from r s' consider "generation_status r = JObj sentStatus \<and> updated_at r = now env"
      | "r \<in> set (mystery_packages s1)" "pkg_id r \<noteq> pid"
      using write_status_rows_cases by blast
    then show "(generation_status r = JObj sentStatus \<and> updated_at r = now env)
                     \<or> updated_at r < now env"
    proof cases
      case 1
      then show ?thesis by simp
    next
      case 2
      with create_or_update_record_rows [OF c] have "r \<in> set (mystery_packages s)" by blast
      with clock cid show ?thesis by blast
    qed
  qed
  from c have "\<exists>r \<in> set (mystery_packages s1). pkg_id r = pid \<and> conversation_id r = mysteryId"
    by (rule create_or_update_record_row)
  then have "\<exists>r \<in> set (mystery_packages s'). pkg_id r = pid \<and> conversation_id r = mysteryId"
    unfolding s' by (intro write_status_keeps_row)
  then obtain r where r: "r \<in> set (mystery_packages s')" "pkg_id r = pid" "conversation_id r = mysteryId"
    by blast
  from r(1,2) s' have "generation_status r = JObj sentStatus" by (simp add: write_status_rows)
  moreover from r(1,2) s' have "updated_at r = now env"
    using write_status_rows_cases by blast
  ultimately have one: "\<exists>r \<in> set (mystery_packages s'). conversation_id r = mysteryId
      \<and> generation_status r = JObj sentStatus \<and> updated_at r = now env"
    using r by blast
  from latest_with_newest_timestamp [OF rows one] calls show ?thesis by simp
qed

text \<open>
  C3, as amended.  When the read of the guard succeeds and the latest row's
  stored status is \<open>completed\<close>, \<open>generateCompletePackage\<close> returns
  \<open>already_completed\<close>, sends no write and no invocation, and leaves the store
  unchanged.
\<close>

theorem completed_guard:
  assumes "errors env ''existingPackageErr'' = None"
    and "latest_package s mysteryId = Some row"
    and "status_of (generation_status row) = Some ''completed''"
  shows "generateCompletePackage env s mysteryId testMode = (Inr ''already_completed'', s, [])"
  using assms by (rule guard_completed)

theorem completed_guard_witness:
  "generateCompletePackage (no_errors 100)
      (example_store (example_row (Some ''X'') (Some ''Y'') (JObj completedStatus))) ''c1'' False
     = (Inr ''already_completed'',
        example_store (example_row (Some ''X'') (Some ''Y'') (JObj completedStatus)), [])"
proof -
  let ?row = "example_row (Some ''X'') (Some ''Y'') (JObj completedStatus)"
  have 1: "errors (no_errors 100) ''existingPackageErr'' = None" by (simp add: no_errors_def)
  have 2: "latest_package (example_store ?row) ''c1'' = Some ?row"
    by (simp add: example_defs latest_package_def)
  have 3: "status_of (generation_status ?row) = Some ''completed''"
    by (simp add: example_defs status_of_def completedStatus_def)
  from completed_guard [OF 1 2 3] show ?thesis .
qed

text \<open>
  C3 as stated fails when the read of the guard returns an error: the stored
  status is \<open>completed\<close>, and the call overwrites it, invokes the edge function
  and reports that generation has started.
\<close>

theorem completed_guard_counterexample:
  "latest_package (example_store (example_row (Some ''X'') (Some ''Y'') (JObj completedStatus))) ''c1''
     = Some (example_row (Some ''X'') (Some ''Y'') (JObj completedStatus)) \<and>
   status_of (generation_status (example_row (Some ''X'') (Some ''Y'') (JObj completedStatus)))
     = Some ''completed'' \<and>
   generateCompletePackage (failing ''existingPackageErr'' 100)
       (example_store (example_row (Some ''X'') (Some ''Y'') (JObj completedStatus))) ''c1'' False
     = (Inr ''Package generation started successfully'',
        example_store ((example_row (Some ''X'') (Some ''Y'') (JObj sentStatus))
                          \<lparr>generation_started_at := Some 100, updated_at := 100\<rparr>),
        [Update ''mystery_packages'' (Some (JObj initialStatus)),
         Invoke ''mystery-webhook-trigger'' ''c1'' False,
         Update ''mystery_packages'' (Some (JObj sentStatus))])"
  by (simp add: example_defs generate_defs completedStatus_def)

text \<open>
  C4, as amended.  When the latest row's stored status is \<open>in_progress\<close> and the
  read of the guard succeeds, each of two calls in succession returns
  \<open>already_in_progress\<close>, a result and not an error, and sends nothing: no
  invocation is made by either.  When a first call has started generation (it
  returned \<open>Package generation started successfully\<close>, with the clock ahead of
  the timestamps of the conversation's rows), a second call whose guard read
  succeeds returns \<open>already_in_progress\<close> and sends nothing, so exactly one
  invocation is made across the two calls.
\<close>

theorem in_progress_guard:
  "(errors env ''existingPackageErr'' = None \<and> errors env' ''existingPackageErr'' = None
      \<and> latest_package s mysteryId = Some row
      \<and> status_of (generation_status row) = Some ''in_progress''
    \<longrightarrow> generateCompletePackage env s mysteryId testMode = (Inr ''already_in_progress'', s, [])
      \<and> generateCompletePackage env' s mysteryId testMode' = (Inr ''already_in_progress'', s, [])) \<and>
   (generateCompletePackage env s mysteryId testMode =
        (Inr ''Package generation started successfully'', s1, evs1)
      \<and> (\<forall>r \<in> set (mystery_packages s). conversation_id r = mysteryId \<longrightarrow> updated_at r < now env)
      \<and> errors env' ''existingPackageErr'' = None
    \<longrightarrow> generateCompletePackage env' s1 mysteryId testMode' = (Inr ''already_in_progress'', s1, [])
      \<and> outbound_calls (evs1 @ []) = 1)"
proof (intro conjI impI)
  assume h: "errors env ''existingPackageErr'' = None \<and> errors env' ''existingPackageErr'' = None
      \<and> latest_package s mysteryId = Some row
      \<and> status_of (generation_status row) = Some ''in_progress''"
  then show "generateCompletePackage env s mysteryId testMode = (Inr ''already_in_progress'', s, [])"
    by (simp add: guard_in_progress)
  from h show "generateCompletePackage env' s mysteryId testMode' = (Inr ''already_in_progress'', s, [])"
    by (simp add: guard_in_progress)
next
  assume h: "generateCompletePackage env s mysteryId testMode =
        (Inr ''Package generation started successfully'', s1, evs1)
      \<and> (\<forall>r \<in> set (mystery_packages s). conversation_id r = mysteryId \<longrightarrow> updated_at r < now env)
      \<and> errors env' ''existingPackageErr'' = None"
  then obtain r where r: "latest_package s1 mysteryId = Some r" "generation_status r = JObj sentStatus"
    and calls: "outbound_calls evs1 = 1"
    using latest_after_start by blast
  from r(2) have "status_of (generation_status r) = Some ''in_progress''"
    by (simp add: status_of_def sentStatus_def)
  with h r(1) show "generateCompletePackage env' s1 mysteryId testMode' = (Inr ''already_in_progress'', s1, [])"
    by (simp add: guard_in_progress)
  from calls show "outbound_calls (evs1 @ []) = 1" by simp
qed

theorem in_progress_guard_witness:
  "generateCompletePackage (no_errors 100)
       (example_store (example_row None None (JObj sentStatus))) ''c1'' False
     = (Inr ''already_in_progress'', example_store (example_row None None (JObj sentStatus)), []) \<and>
   generateCompletePackage (no_errors 101)
       (example_store (example_row None None (JObj sentStatus))) ''c1'' True
     = (Inr ''already_in_progress'', example_store (example_row None None (JObj sentStatus)), []) \<and>
   generateCompletePackage (no_errors 101)
       (fst (snd (generateCompletePackage (no_errors 100)
                    (example_store (example_row None None JNull)) ''c1'' False))) ''c1'' True
     = (Inr ''already_in_progress'',
        fst (snd (generateCompletePackage (no_errors 100)
                    (example_store (example_row None None JNull)) ''c1'' False)), []) \<and>
   outbound_calls
     (snd (snd (generateCompletePackage (no_errors 100)
                  (example_store (example_row None None JNull)) ''c1'' False)) @ []) = 1"
proof -
  let ?p = "example_row None None (JObj sentStatus)"
  let ?n = "example_row None None JNull"
  let ?g = "generateCompletePackage (no_errors 100) (example_store ?n) ''c1'' False"
  have a: "errors (no_errors 100) ''existingPackageErr'' = None
      \<and> errors (no_errors 101) ''existingPackageErr'' = None
      \<and> latest_package (example_store ?p) ''c1'' = Some ?p
      \<and> status_of (generation_status ?p) = Some ''in_progress''"
    by (simp add: example_defs latest_package_def status_of_def sentStatus_def)
  have "fst ?g = Inr ''Package generation started successfully''"
    by (simp add: example_defs generate_defs)
  then have g: "?g = (Inr ''Package generation started successfully'', fst (snd ?g), snd (snd ?g))"
    by (metis prod.collapse)
  have b: "(\<forall>r \<in> set (mystery_packages (example_store ?n)). conversation_id r = ''c1''
              \<longrightarrow> updated_at r < now (no_errors 100))
      \<and> errors (no_errors 101) ''existingPackageErr'' = None"
    by (simp add: example_defs)
  from in_progress_guard [of "no_errors 100" "no_errors 101" "example_store ?p" "''c1''" ?p False True] a
  have 1: "generateCompletePackage (no_errors 100) (example_store ?p) ''c1'' False
             = (Inr ''already_in_progress'', example_store ?p, [])
         \<and> generateCompletePackage (no_errors 101) (example_store ?p) ''c1'' True
             = (Inr ''already_in_progress'', example_store ?p, [])"
    by blast
  from in_progress_guard [of "no_errors 100" "no_errors 101" "example_store ?n" "''c1''" _ False True
      "fst (snd ?g)" "snd (snd ?g)"] g b
  have 2: "generateCompletePackage (no_errors 101) (fst (snd ?g)) ''c1'' True
             = (Inr ''already_in_progress'', fst (snd ?g), [])
           \<and> outbound_calls (snd (snd ?g) @ []) = 1"
    by blast
  from 1 2 show ?thesis by blast
qed

text \<open>
  C4 as stated fails: on a row whose stored status is \<open>in_progress\<close> both calls
  stop at the guard, and the number of invocations across the two calls is 0, not
  1.
\<close>

theorem in_progress_guard_counterexample:
  "latest_package (example_store (example_row None None (JObj sentStatus))) ''c1''
     = Some (example_row None None (JObj sentStatus)) \<and>
   status_of (generation_status (example_row None None (JObj sentStatus))) = Some ''in_progress'' \<and>
   generateCompletePackage (no_errors 100)
       (example_store (example_row None None (JObj sentStatus))) ''c1'' False
     = (Inr ''already_in_progress'', example_store (example_row None None (JObj sentStatus)), []) \<and>
   generateCompletePackage (no_errors 101)
       (example_store (example_row None None (JObj sentStatus))) ''c1'' False
     = (Inr ''already_in_progress'', example_store (example_row None None (JObj sentStatus)), []) \<and>
   outbound_calls
     (snd (snd (generateCompletePackage (no_errors 100)
                  (example_store (example_row None None (JObj sentStatus))) ''c1'' False)) @
      snd (snd (generateCompletePackage (no_errors 101)
                  (example_store (example_row None None (JObj sentStatus))) ''c1'' False))) = 0"
  by (simp add: example_defs generate_defs sentStatus_def outbound_calls_def)

text \<open>
  C5.  In every run of \<open>generateCompletePackage\<close> in which the edge function is
  invoked and the invocation returns an error, the call ends by throwing, and
  before that it has written a status with \<open>status\<close> \<open>failed\<close>, progress 0 and
  \<open>resumable\<close> true to the package row of the conversation: the writes follow
  the invocation in the events sent, and the row holds that status in the store
  the call leaves behind.
\<close>

theorem trigger_failure_recorded:
  assumes failed: "errors env ''webhookError'' = Some e"
    and called: "outbound_calls (snd (snd (generateCompletePackage env s mysteryId testMode))) \<noteq> 0"
  shows "\<exists>pid s' evs.
           generateCompletePackage env s mysteryId testMode =
             (Inl (Error (''Package generation failed: Failed to trigger generation: '' @ message e)),
              s',
              evs @ [Invoke ''mystery-webhook-trigger'' mysteryId testMode,
                     Update ''mystery_packages''
                       (Some (JObj (failedStatus ''Failed to trigger generation'' (message e)))),
                     Update ''mystery_packages''
                       (Some (JObj (failedStatus ''Unexpected error during generation''
                                      (''Failed to trigger generation: '' @ message e))))]) \<and>
           outbound_calls evs = 0 \<and>
           (\<exists>r \<in> set (mystery_packages s'). pkg_id r = pid \<and> conversation_id r = mysteryId) \<and>
           (\<forall>r \<in> set (mystery_packages s'). pkg_id r = pid \<longrightarrow>
              (\<exists>g. generation_status r = JObj g \<and> status g = Some ''failed'' \<and>
                   progress g = Some 0 \<and> resumable g = Some True))"
proof -
  from failed called obtain pid s1 evs1 where
    c: "create_or_update_record env s mysteryId = (Inr pid, s1, evs1)" and
    g: "generateCompletePackage env s mysteryId testMode =
             (Inl (Error (''Package generation failed: Failed to trigger generation: '' @ message e)),
              write_status env pid
                (failedStatus ''Unexpected error during generation''
                   (''Failed to trigger generation: '' @ message e))
                (write_status env pid (failedStatus ''Failed to trigger generation'' (message e)) s1),
              evs1 @ [Invoke ''mystery-webhook-trigger'' mysteryId testMode,
                      Update ''mystery_packages''
                        (Some (JObj (failedStatus ''Failed to trigger generation'' (message e)))),
                      Update ''mystery_packages''
                        (Some (JObj (failedStatus ''Unexpected error during generation''
                                       (''Failed to trigger generation: '' @ message e))))])"
    using generate_trigger_fails by blast
  let ?s' = "write_status env pid
                (failedStatus ''Unexpected error during generation''
                   (''Failed to trigger generation: '' @ message e))
                (write_status env pid (failedStatus ''Failed to trigger generation'' (message e)) s1)"
  from c have ev: "outbound_calls evs1 = 0" by (simp add: create_or_update_record_events)
  from c have "\<exists>r \<in> set (mystery_packages s1). pkg_id r = pid \<and> conversation_id r = mysteryId"
    by (rule create_or_update_record_row)
  then have row: "\<exists>r \<in> set (mystery_packages ?s'). pkg_id r = pid \<and> conversation_id r = mysteryId"
    by (intro write_status_keeps_row)
  have st: "\<forall>r \<in> set (mystery_packages ?s'). pkg_id r = pid \<longrightarrow>
              (\<exists>g. generation_status r = JObj g \<and> status g = Some ''failed'' \<and>
                   progress g = Some 0 \<and> resumable g = Some True)"
  proof (intro ballI impI)
    fix r assume "r \<in> set (mystery_packages ?s')" and "pkg_id r = pid"
    then have "generation_status r = JObj (failedStatus ''Unexpected error during generation''
                   (''Failed to trigger generation: '' @ message e))"
      by (rule write_status_rows)
    then show "\<exists>g. generation_status r = JObj g \<and> status g = Some ''failed'' \<and>
                   progress g = Some 0 \<and> resumable g = Some True"
      by (simp add: failedStatus_def)
  qed
  from g ev row st show ?thesis by blast
qed

theorem trigger_failure_recorded_witness:
  "fst (generateCompletePackage (failing ''webhookError'' 100)
          (example_store (example_row None None JNull)) ''c1'' False)
     = Inl (Error (''Package generation failed: Failed to trigger generation: '' @ ''unavailable'')) \<and>
   map generation_status
     (mystery_packages
        (fst (snd (generateCompletePackage (failing ''webhookError'' 100)
                     (example_store (example_row None None JNull)) ''c1'' False))))
     = [JObj (failedStatus ''Unexpected error during generation''
                (''Failed to trigger generation: '' @ ''unavailable''))] \<and>
   snd (snd (generateCompletePackage (failing ''webhookError'' 100)
               (example_store (example_row None None JNull)) ''c1'' False))
     = [Update ''mystery_packages'' (Some (JObj initialStatus)),
        Invoke ''mystery-webhook-trigger'' ''c1'' False,
        Update ''mystery_packages''
          (Some (JObj (failedStatus ''Failed to trigger generation'' ''unavailable''))),
        Update ''mystery_packages''
          (Some (JObj (failedStatus ''Unexpected error during generation''
                         (''Failed to trigger generation: '' @ ''unavailable''))))]"
proof -
  let ?g = "generateCompletePackage (failing ''webhookError'' 100)
              (example_store (example_row None None JNull)) ''c1'' False"
  have 1: "errors (failing ''webhookError'' 100) ''webhookError''
             = Some \<lparr>code = ''503'', message = ''unavailable''\<rparr>"
    by (simp add: failing_def)
  have 2: "outbound_calls (snd (snd ?g)) \<noteq> 0"
    by (simp add: example_defs generate_defs outbound_calls_def)
  from trigger_failure_recorded [OF 1 2]
  have a: "fst ?g = Inl (Error (''Package generation failed: Failed to trigger generation: ''
                                  @ ''unavailable''))"
    by auto
  have b: "map generation_status (mystery_packages (fst (snd ?g)))
     = [JObj (failedStatus ''Unexpected error during generation''
                (''Failed to trigger generation: '' @ ''unavailable''))]"
    by (simp add: example_defs generate_defs)
  have c: "snd (snd ?g)
     = [Update ''mystery_packages'' (Some (JObj initialStatus)),
        Invoke ''mystery-webhook-trigger'' ''c1'' False,
        Update ''mystery_packages''
          (Some (JObj (failedStatus ''Failed to trigger generation'' ''unavailable''))),
        Update ''mystery_packages''
          (Some (JObj (failedStatus ''Unexpected error during generation''
                         (''Failed to trigger generation: '' @ ''unavailable''))))]"
    by (simp add: example_defs generate_defs)
  from a b c show ?thesis by (intro conjI)
qed

subsection \<open>saveStructuredPackageData\<close>












end
